theory Spec2Isabelle
  imports Main "HOL-Library.Word"
begin

section \<open>Values shared by both encoders\<close>

text \<open>
  \<^verbatim>\<open>tagger.go\<close> writes metadata into MP3 files through \<^verbatim>\<open>github.com/bogem/id3v2\<close>
  and into FLAC files through \<^verbatim>\<open>github.com/go-flac\<close> (\<^verbatim>\<open>go-flac\<close>, \<^verbatim>\<open>flacvorbis\<close>,
  \<^verbatim>\<open>flacpicture\<close>). The two taggers, the interface and the dispatcher are the code of
  \<^verbatim>\<open>tagger.go\<close>, function by function. The libraries are dependencies: what their calls do
  in memory (frames of a tag, comments of a comment block, the bytes of a picture block)
  is modelled after the library function that each definition names, and what they do on
  the file system is a parameter (section \<open>The environment\<close>).

  A Go \<^verbatim>\<open>string\<close> is a sequence of bytes and is modelled as \<open>string\<close>; a \<^verbatim>\<open>[]byte\<close> is a
  list of 8-bit words, and the conversion \<^verbatim>\<open>[]byte(s)\<close> keeps every byte.
\<close>

type_synonym byte = "8 word"
type_synonym bytes = "byte list"

definition bytes_of_string :: "string \<Rightarrow> bytes" where
  "bytes_of_string s = map of_char s"

definition string_of_bytes :: "bytes \<Rightarrow> string" where
  "string_of_bytes bs = map (\<lambda>b. char_of (unat b)) bs"

text \<open>
  A Go \<^verbatim>\<open>error\<close> result is \<open>error option\<close>, \<open>None\<close> for \<^verbatim>\<open>nil\<close>. \<open>ErrorString\<close> is
  what \<^verbatim>\<open>errors.New\<close> builds; the two \<^verbatim>\<open>flacvorbis\<close> errors are that package's
  values; \<open>ExternalError\<close> stands for an error that the file system or an image decoder
  reports.
\<close>

datatype error =
    ErrorString string
  | ErrorMalformedComment
  | ErrorInvalidFieldName
  | ExternalError string

section \<open>The frame-based tag of \<^verbatim>\<open>id3v2\<close>\<close>

text \<open>
  The part of \<^verbatim>\<open>id3v2.Tag\<close> that the tagger reaches. Text frames (every frame whose id
  starts with T, except TXXX) are kept one per frame id, in the map \<^verbatim>\<open>tag.frames\<close>:
  \<^verbatim>\<open>AddFrame\<close> stores \<^verbatim>\<open>tag.frames[id] = f\<close>. Attached pictures (APIC) and comments
  (COMM) are kept in a sequence per frame id, in which \<^verbatim>\<open>sequence.AddFrame\<close> replaces the
  frame that has the same \<^verbatim>\<open>UniqueIdentifier()\<close> and appends otherwise. The other single
  frames of a tag (MCDI, PCNT, ...) are never read or written by the tagger and are left
  out, so that \<open>frames\<close> holds text frames only and the type assertion of
  \<^verbatim>\<open>GetTextFrame\<close> cannot fail.
\<close>

datatype Encoding = EncodingISO | EncodingUTF16 | EncodingUTF16BE | EncodingUTF8

record TextFrame =
  tf_Encoding :: Encoding
  tf_Text :: string

record PictureFrame =
  pf_Encoding :: Encoding
  pf_MimeType :: string
  pf_PictureType :: byte
  pf_Description :: string
  pf_Picture :: bytes

record CommentFrame =
  cf_Encoding :: Encoding
  cf_Language :: string
  cf_Description :: string
  cf_Text :: string

datatype Framer =
    FText TextFrame
  | FPicture PictureFrame
  | FComment CommentFrame
  | FUnknown bytes

record Tag =
  frames :: "string \<rightharpoonup> TextFrame"
  sequences :: "string \<rightharpoonup> Framer list"
  defaultEncoding :: Encoding

definition PTFrontCover :: byte where
  "PTFrontCover = 3"

text \<open>\<^verbatim>\<open>tag.CommonID(description)\<close> for the descriptions that the tagger and the tag's
  own getters and setters use; the ids are the same in ID3v2.3 and ID3v2.4. A description
  that is not a common one is returned as it is.\<close>

definition CommonID :: "string \<Rightarrow> string" where
  "CommonID d =
     (if d = ''Title'' then ''TIT2''
      else if d = ''Album/Movie/Show title'' then ''TALB''
      else if d = ''Artist'' then ''TPE1''
      else if d = ''Comments'' then ''COMM''
      else if d = ''Attached picture'' then ''APIC''
      else d)"

text \<open>\<^verbatim>\<open>UniqueIdentifier()\<close> of a frame: the picture type in two hexadecimal digits
  (\<^verbatim>\<open>fmt.Sprintf("%02X", b)\<close>) followed by the description for a picture frame, the language
  followed by the description for a comment frame, the empty string for a text frame.\<close>

definition hex_digit :: "nat \<Rightarrow> char" where
  "hex_digit n = (if n < 10 then char_of (48 + n) else char_of (55 + n))"

definition fmt_02X :: "byte \<Rightarrow> string" where
  "fmt_02X b = [hex_digit (unat b div 16), hex_digit (unat b mod 16)]"

fun UniqueIdentifier :: "Framer \<Rightarrow> string" where
  "UniqueIdentifier (FText tf) = ''''"
| "UniqueIdentifier (FPicture pf) = fmt_02X (pf_PictureType pf) @ pf_Description pf"
| "UniqueIdentifier (FComment cf) = cf_Language cf @ cf_Description cf"
| "UniqueIdentifier (FUnknown body) = string_of_bytes body"

text \<open>\<^verbatim>\<open>sequence.AddFrame\<close>: the first frame of the sequence with the identifier of \<open>f\<close>
  is overwritten in place; when there is none, \<open>f\<close> is appended. This is how the library
  keeps the rule of ID3v2 that a tag has one attached picture per picture type and
  description, and one comment per language and description.\<close>

fun sequence_AddFrame :: "Framer list \<Rightarrow> Framer \<Rightarrow> Framer list" where
  "sequence_AddFrame [] f = [f]"
| "sequence_AddFrame (g # gs) f =
     (if UniqueIdentifier f = UniqueIdentifier g then f # gs
      else g # sequence_AddFrame gs f)"

definition sequence_of :: "Tag \<Rightarrow> string \<Rightarrow> Framer list" where
  "sequence_of t i = (case sequences t i of None \<Rightarrow> [] | Some s \<Rightarrow> s)"

definition AddTextFrame :: "Tag \<Rightarrow> string \<Rightarrow> Encoding \<Rightarrow> string \<Rightarrow> Tag" where
  "AddTextFrame t i enc txt =
     (if i = [] then t
      else t\<lparr>frames := (frames t)(i \<mapsto> \<lparr>tf_Encoding = enc, tf_Text = txt\<rparr>)\<rparr>)"

definition AddSequenceFrame :: "Tag \<Rightarrow> string \<Rightarrow> Framer \<Rightarrow> Tag" where
  "AddSequenceFrame t i f =
     (if i = [] then t
      else t\<lparr>sequences := (sequences t)(i \<mapsto> sequence_AddFrame (sequence_of t i) f)\<rparr>)"

definition AddAttachedPicture :: "Tag \<Rightarrow> PictureFrame \<Rightarrow> Tag" where
  "AddAttachedPicture t pf = AddSequenceFrame t (CommonID ''Attached picture'') (FPicture pf)"

definition AddCommentFrame :: "Tag \<Rightarrow> CommentFrame \<Rightarrow> Tag" where
  "AddCommentFrame t cf = AddSequenceFrame t (CommonID ''Comments'') (FComment cf)"

text \<open>\<^verbatim>\<open>tag.GetFrames(id)\<close>: the single frame of that id if there is one, else the
  frames of its sequence, else nothing.\<close>

definition GetFrames :: "Tag \<Rightarrow> string \<Rightarrow> Framer list" where
  "GetFrames t i =
     (case frames t i of
        Some tf \<Rightarrow> [FText tf]
      | None \<Rightarrow> sequence_of t i)"

text \<open>\<^verbatim>\<open>tag.GetTextFrame(id)\<close> gives the zero \<^verbatim>\<open>TextFrame\<close> when the tag has no frame of
  that id; only its text is read here.\<close>

definition GetTextFrame_Text :: "Tag \<Rightarrow> string \<Rightarrow> string" where
  "GetTextFrame_Text t i = (case frames t i of None \<Rightarrow> [] | Some tf \<Rightarrow> tf_Text tf)"

definition Title :: "Tag \<Rightarrow> string" where
  "Title t = GetTextFrame_Text t (CommonID ''Title'')"

definition Album :: "Tag \<Rightarrow> string" where
  "Album t = GetTextFrame_Text t (CommonID ''Album/Movie/Show title'')"

definition Tag_SetTitle :: "Tag \<Rightarrow> string \<Rightarrow> Tag" where
  "Tag_SetTitle t title =
     AddTextFrame t (CommonID ''Title'') (defaultEncoding t) title"

definition Tag_SetAlbum :: "Tag \<Rightarrow> string \<Rightarrow> Tag" where
  "Tag_SetAlbum t album =
     AddTextFrame t (CommonID ''Album/Movie/Show title'') (defaultEncoding t) album"

definition Tag_SetArtist :: "Tag \<Rightarrow> string \<Rightarrow> Tag" where
  "Tag_SetArtist t artist =
     AddTextFrame t (CommonID ''Artist'') (defaultEncoding t) artist"

section \<open>The MP3 tagger\<close>

text \<open>
  \<^verbatim>\<open>Mp3Tagger\<close> owns the pointer to its tag, so a method that mutates the tag is a
  function from the tagger to the updated tagger, paired with the \<^verbatim>\<open>error\<close> the method
  returns.
\<close>

record Mp3Tagger =
  tag :: Tag

definition Mp3Tagger_SetCover :: "Mp3Tagger \<Rightarrow> bytes \<Rightarrow> string \<Rightarrow> Mp3Tagger \<times> error option" where
  "Mp3Tagger_SetCover m buf mime =
     (m\<lparr>tag := AddAttachedPicture (tag m)
          \<lparr>pf_Encoding = EncodingISO, pf_MimeType = mime, pf_PictureType = PTFrontCover,
           pf_Description = ''Front cover'', pf_Picture = buf\<rparr>\<rparr>,
      None)"

definition Mp3Tagger_SetCoverUrl :: "Mp3Tagger \<Rightarrow> string \<Rightarrow> Mp3Tagger \<times> error option" where
  "Mp3Tagger_SetCoverUrl m coverUrl =
     (m\<lparr>tag := AddAttachedPicture (tag m)
          \<lparr>pf_Encoding = EncodingISO, pf_MimeType = ''-->'', pf_PictureType = PTFrontCover,
           pf_Description = ''Front cover'', pf_Picture = bytes_of_string coverUrl\<rparr>\<rparr>,
      None)"

definition Mp3Tagger_SetTitle :: "Mp3Tagger \<Rightarrow> string \<Rightarrow> Mp3Tagger \<times> error option" where
  "Mp3Tagger_SetTitle m title =
     (if Title (tag m) = [] then (m\<lparr>tag := Tag_SetTitle (tag m) title\<rparr>, None)
      else (m, None))"

definition Mp3Tagger_SetAlbum :: "Mp3Tagger \<Rightarrow> string \<Rightarrow> Mp3Tagger \<times> error option" where
  "Mp3Tagger_SetAlbum m album =
     (if Album (tag m) = [] then (m\<lparr>tag := Tag_SetAlbum (tag m) album\<rparr>, None)
      else (m, None))"

text \<open>The loop of \<^verbatim>\<open>SetArtist\<close>: one \<^verbatim>\<open>m.tag.SetArtist(artist)\<close> per element, in order.\<close>

fun SetArtist_each :: "Tag \<Rightarrow> string list \<Rightarrow> Tag" where
  "SetArtist_each t [] = t"
| "SetArtist_each t (artist # artists) = SetArtist_each (Tag_SetArtist t artist) artists"

definition Mp3Tagger_SetArtist :: "Mp3Tagger \<Rightarrow> string list \<Rightarrow> Mp3Tagger \<times> error option" where
  "Mp3Tagger_SetArtist m artists =
     (if length (GetFrames (tag m) (CommonID ''Artist'')) = 0
      then (m\<lparr>tag := SetArtist_each (tag m) artists\<rparr>, None)
      else (m, None))"

definition Mp3Tagger_SetComment :: "Mp3Tagger \<Rightarrow> string \<Rightarrow> Mp3Tagger \<times> error option" where
  "Mp3Tagger_SetComment m comment =
     (if length (GetFrames (tag m) (CommonID ''Comments'')) = 0
      then (m\<lparr>tag := AddCommentFrame (tag m)
              \<lparr>cf_Encoding = EncodingISO, cf_Language = ''XXX'', cf_Description = '''',
               cf_Text = comment\<rparr>\<rparr>,
            None)
      else (m, None))"

section \<open>The environment\<close>

text \<open>
  What the file system and the image decoders answer is not decided by the tagger, so it
  is a parameter of the model: one function per library call that leaves the process.
  \<open>image_Decode\<close> is the decoding step of \<^verbatim>\<open>flacpicture.NewFromImageData\<close> and gives width,
  height, colour depth and number of indexed colours; \<open>ParseFromMetaDataBlock\<close> is the
  decoder of \<^verbatim>\<open>flacvorbis\<close>. Every call that reaches the file system is logged as an \<open>io\<close>
  event, in the order of the calls.
\<close>

type_synonym BlockType = nat

definition VorbisComment :: BlockType where
  "VorbisComment = 4"

definition Picture :: BlockType where
  "Picture = 6"

record MetaDataBlock =
  Type :: BlockType
  Data :: bytes

record File =
  Meta :: "MetaDataBlock list"
  Frames :: bytes

record MetaDataBlockVorbisComment =
  Vendor :: string
  Comments :: "string list"

record env =
  id3v2_Open :: "string \<Rightarrow> error + Tag"
  tag_Save :: "Tag \<Rightarrow> error option"
  tag_Close :: "Tag \<Rightarrow> error option"
  flac_ParseFile :: "string \<Rightarrow> error + File"
  ParseFromMetaDataBlock :: "MetaDataBlock \<Rightarrow> error + MetaDataBlockVorbisComment"
  image_Decode :: "bytes \<Rightarrow> error + (32 word \<times> 32 word \<times> 32 word \<times> 32 word)"
  file_Save :: "File \<Rightarrow> string \<Rightarrow> error option"

datatype io =
    IO_Open string
  | IO_TagSave Tag
  | IO_TagClose Tag
  | IO_ParseFile string
  | IO_FileSave File string

definition Tag_Save :: "env \<Rightarrow> Tag \<Rightarrow> io list \<times> error option" where
  "Tag_Save e t = ([IO_TagSave t], tag_Save e t)"

definition Tag_Close :: "env \<Rightarrow> Tag \<Rightarrow> io list \<times> error option" where
  "Tag_Close e t = ([IO_TagClose t], tag_Close e t)"

definition File_Save :: "env \<Rightarrow> File \<Rightarrow> string \<Rightarrow> io list \<times> error option" where
  "File_Save e f p = ([IO_FileSave f p], file_Save e f p)"

section \<open>Opening and saving an MP3 session\<close>

definition NewMp3Tagger :: "env \<Rightarrow> string \<Rightarrow> io list \<times> (error + Mp3Tagger)" where
  "NewMp3Tagger e p =
     (case id3v2_Open e p of
        Inl err \<Rightarrow> ([IO_Open p], Inl err)
      | Inr t \<Rightarrow> ([IO_Open p], Inr \<lparr>tag = t\<rparr>))"

text \<open>\<^verbatim>\<open>Save\<close> assigns the result of \<^verbatim>\<open>m.tag.Save()\<close> to \<^verbatim>\<open>err\<close>, assigns the result of
  \<^verbatim>\<open>m.tag.Close()\<close> to the same variable and returns it.\<close>

definition Mp3Tagger_Save :: "env \<Rightarrow> Mp3Tagger \<Rightarrow> io list \<times> error option" where
  "Mp3Tagger_Save e m =
     (case Tag_Save e (tag m) of (io1, err) \<Rightarrow>
        (case Tag_Close e (tag m) of (io2, err) \<Rightarrow> (io1 @ io2, err)))"

section \<open>Comment blocks and picture blocks of \<^verbatim>\<open>go-flac\<close>\<close>

text \<open>The two fixed-width encodings: \<^verbatim>\<open>encodeUint32\<close> is big-endian (picture blocks),
  \<^verbatim>\<open>encodeUint32L\<close> little-endian (comment blocks). A length is converted with
  \<^verbatim>\<open>uint32(len(x))\<close>, which keeps the low 32 bits.\<close>

definition encodeUint32 :: "32 word \<Rightarrow> bytes" where
  "encodeUint32 n =
     [ucast (drop_bit 24 n), ucast (drop_bit 16 n), ucast (drop_bit 8 n), ucast n]"

definition encodeUint32L :: "32 word \<Rightarrow> bytes" where
  "encodeUint32L n = rev (encodeUint32 n)"

definition uint32_len :: "'a list \<Rightarrow> 32 word" where
  "uint32_len xs = of_nat (length xs)"

text \<open>\<^verbatim>\<open>flacvorbis.New()\<close> starts a comment block with the library's vendor string and no
  comment; the field names are the library's constants.\<close>

definition APP_VERSION :: string where
  "APP_VERSION = ''0.1.0''"

definition FIELD_TITLE :: string where
  "FIELD_TITLE = ''TITLE''"

definition FIELD_ALBUM :: string where
  "FIELD_ALBUM = ''ALBUM''"

definition FIELD_ARTIST :: string where
  "FIELD_ARTIST = ''ARTIST''"

definition flacvorbis_New :: MetaDataBlockVorbisComment where
  "flacvorbis_New = \<lparr>Vendor = ''flacvorbis '' @ APP_VERSION, Comments = []\<rparr>"

text \<open>\<^verbatim>\<open>strings.SplitN(cmt, "=", 2)\<close>: \<open>None\<close> when the result has one element (no
  \<^verbatim>\<open>=\<close> in the comment), else the text before the first \<^verbatim>\<open>=\<close> and the text after it.\<close>

definition SplitN2 :: "string \<Rightarrow> (string \<times> string) option" where
  "SplitN2 cmt =
     (case dropWhile (\<lambda>c. c \<noteq> CHR ''='') cmt of
        [] \<Rightarrow> None
      | _ # v \<Rightarrow> Some (takeWhile (\<lambda>c. c \<noteq> CHR ''='') cmt, v))"

section \<open>Case folding\<close>

text \<open>
  \<open>toLower_byte\<close> is the ASCII step of \<^verbatim>\<open>strings.ToLower\<close>. Go lower-cases
  the runes that bytes from 0x80 on encode; no such rune becomes one of the letters of
  \<^verbatim>\<open>mp3\<close> and \<^verbatim>\<open>flac\<close>, and \<open>ToLower\<close> is only compared with these two names, so the
  bytes from 0x80 on are left as they are.

  \<^verbatim>\<open>strings.EqualFold\<close> compares rune by rune under simple case folding, where the two
  runes U+017F (bytes C5 BF) and U+212A (bytes E2 84 AA) fold to the ASCII letters s and k.
  \<open>foldASCII\<close> maps a string to a normal form under exactly these foldings; the
  comparison of normal forms is \<^verbatim>\<open>EqualFold\<close> whenever one argument is ASCII, which a
  field name of the tagger always is.
\<close>

definition toLower_byte :: "char \<Rightarrow> char" where
  "toLower_byte c =
     (let n = (of_char c :: nat) in if 65 \<le> n \<and> n \<le> 90 then char_of (n + 32) else c)"

definition ToLower :: "string \<Rightarrow> string" where
  "ToLower s = map toLower_byte s"

fun foldASCII :: "string \<Rightarrow> string" where
  "foldASCII [] = []"
| "foldASCII [c] = [toLower_byte c]"
| "foldASCII (c # d # cs) =
     (if (of_char c :: nat) = 0xC5 \<and> (of_char d :: nat) = 0xBF then CHR ''s'' # foldASCII cs
      else if (of_char c :: nat) = 0xE2 \<and> (of_char d :: nat) = 0x84
              \<and> (case cs of [] \<Rightarrow> False | x # _ \<Rightarrow> (of_char x :: nat) = 0xAA)
           then CHR ''k'' # foldASCII (tl cs)
      else toLower_byte c # foldASCII (d # cs))"

definition EqualFold :: "string \<Rightarrow> string \<Rightarrow> bool" where
  "EqualFold s t = (foldASCII s = foldASCII t)"

section \<open>Reading and extending a comment block\<close>

text \<open>\<^verbatim>\<open>Get\<close> walks the comments in order and stops with \<^verbatim>\<open>ErrorMalformedComment\<close> at
  the first one without \<^verbatim>\<open>=\<close>, whatever its position and whatever the key.\<close>

fun Get_loop :: "string list \<Rightarrow> string \<Rightarrow> string list \<Rightarrow> error + string list" where
  "Get_loop [] key res = Inr res"
| "Get_loop (cmt # rest) key res =
     (case SplitN2 cmt of
        None \<Rightarrow> Inl ErrorMalformedComment
      | Some (k, v) \<Rightarrow> Get_loop rest key (if EqualFold k key then res @ [v] else res))"

definition Get :: "MetaDataBlockVorbisComment \<Rightarrow> string \<Rightarrow> error + string list" where
  "Get c key = Get_loop (Comments c) key []"

text \<open>\<^verbatim>\<open>Add\<close> refuses a key with a character below 0x20, above 0x7d or equal to
  \<^verbatim>\<open>=\<close>; every byte from 0x80 on belongs to a rune above 0x7d.\<close>

definition invalid_key_char :: "char \<Rightarrow> bool" where
  "invalid_key_char c =
     ((of_char c :: nat) < 0x20 \<or> (of_char c :: nat) > 0x7d \<or> c = CHR ''='')"

definition Add ::
  "MetaDataBlockVorbisComment \<Rightarrow> string \<Rightarrow> string \<Rightarrow> MetaDataBlockVorbisComment \<times> error option"
where
  "Add c key val =
     (if list_ex invalid_key_char key then (c, Some ErrorInvalidFieldName)
      else (c\<lparr>Comments := Comments c @ [key @ ''='' @ val]\<rparr>, None))"

text \<open>\<^verbatim>\<open>Marshal\<close> of a comment block: the vendor string, the number of comments and
  the comments, each string after its length.\<close>

definition packStr :: "string \<Rightarrow> bytes" where
  "packStr s = encodeUint32L (uint32_len (bytes_of_string s)) @ bytes_of_string s"

definition VorbisComment_Marshal :: "MetaDataBlockVorbisComment \<Rightarrow> MetaDataBlock" where
  "VorbisComment_Marshal c =
     \<lparr>Type = VorbisComment,
      Data = packStr (Vendor c) @ encodeUint32L (uint32_len (Comments c))
             @ concat (map packStr (Comments c))\<rparr>"

text \<open>The picture block of \<^verbatim>\<open>flacpicture\<close>. \<^verbatim>\<open>NewFromImageData\<close> fills the entry from
  its arguments and from what decoding the image data gives, and fails when the image
  data cannot be decoded; \<^verbatim>\<open>Marshal\<close> writes the fields in the order of the FLAC format.\<close>

record MetadataBlockPicture =
  mbp_PictureType :: "32 word"
  mbp_MIME :: string
  mbp_Description :: string
  mbp_Width :: "32 word"
  mbp_Height :: "32 word"
  mbp_ColorDepth :: "32 word"
  mbp_IndexedColorCount :: "32 word"
  mbp_ImageData :: bytes

definition PictureTypeFrontCover :: "32 word" where
  "PictureTypeFrontCover = 3"

definition NewFromImageData ::
  "env \<Rightarrow> 32 word \<Rightarrow> string \<Rightarrow> bytes \<Rightarrow> string \<Rightarrow> error + MetadataBlockPicture"
where
  "NewFromImageData e pictype description imgdata mime =
     (case image_Decode e imgdata of
        Inl err \<Rightarrow> Inl err
      | Inr (w, h, depth, colors) \<Rightarrow>
          Inr \<lparr>mbp_PictureType = pictype, mbp_MIME = mime, mbp_Description = description,
               mbp_Width = w, mbp_Height = h, mbp_ColorDepth = depth,
               mbp_IndexedColorCount = colors, mbp_ImageData = imgdata\<rparr>)"

definition Picture_Marshal :: "MetadataBlockPicture \<Rightarrow> MetaDataBlock" where
  "Picture_Marshal c =
     \<lparr>Type = Picture,
      Data = encodeUint32 (mbp_PictureType c)
             @ encodeUint32 (uint32_len (mbp_MIME c)) @ bytes_of_string (mbp_MIME c)
             @ encodeUint32 (uint32_len (mbp_Description c))
             @ bytes_of_string (mbp_Description c)
             @ encodeUint32 (mbp_Width c) @ encodeUint32 (mbp_Height c)
             @ encodeUint32 (mbp_ColorDepth c) @ encodeUint32 (mbp_IndexedColorCount c)
             @ encodeUint32 (uint32_len (mbp_ImageData c)) @ mbp_ImageData c\<rparr>"

section \<open>The FLAC tagger\<close>

text \<open>
  \<^verbatim>\<open>FlacTagger\<close> holds the path, the parsed file (\<open>file_ptr\<close>; its chain of metadata blocks is
  \<open>Meta\<close>) and the comment map. The blocks of the chain are never mutated once they are
  appended, so the chain of pointers is a list of blocks.
\<close>

record FlacTagger =
  path :: string
  file_ptr :: File
  cmts :: MetaDataBlockVorbisComment

text \<open>The constructor takes the first block of type \<^verbatim>\<open>VorbisComment\<close>, if any.\<close>

definition NewFlacTagger :: "env \<Rightarrow> string \<Rightarrow> io list \<times> (error + FlacTagger)" where
  "NewFlacTagger e p =
     (case flac_ParseFile e p of
        Inl err \<Rightarrow> ([IO_ParseFile p], Inl err)
      | Inr f \<Rightarrow>
          (case find (\<lambda>m. Type m = VorbisComment) (Meta f) of
             Some cmtmeta \<Rightarrow>
               (case ParseFromMetaDataBlock e cmtmeta of
                  Inl err \<Rightarrow> ([IO_ParseFile p], Inl err)
                | Inr c \<Rightarrow> ([IO_ParseFile p], Inr \<lparr>path = p, file_ptr = f, cmts = c\<rparr>))
           | None \<Rightarrow> ([IO_ParseFile p], Inr \<lparr>path = p, file_ptr = f, cmts = flacvorbis_New\<rparr>)))"

definition append_Meta :: "FlacTagger \<Rightarrow> MetaDataBlock \<Rightarrow> FlacTagger" where
  "append_Meta f b = f\<lparr>file_ptr := (file_ptr f)\<lparr>Meta := Meta (file_ptr f) @ [b]\<rparr>\<rparr>"

definition FlacTagger_SetCover ::
  "env \<Rightarrow> FlacTagger \<Rightarrow> bytes \<Rightarrow> string \<Rightarrow> FlacTagger \<times> error option"
where
  "FlacTagger_SetCover e f buf mime =
     (case NewFromImageData e PictureTypeFrontCover ''Front cover'' buf mime of
        Inr picture \<Rightarrow> (append_Meta f (Picture_Marshal picture), None)
      | Inl err \<Rightarrow> (f, Some err))"

definition FlacTagger_SetCoverUrl :: "FlacTagger \<Rightarrow> string \<Rightarrow> FlacTagger \<times> error option" where
  "FlacTagger_SetCoverUrl f coverUrl =
     (let picture = \<lparr>mbp_PictureType = PictureTypeFrontCover, mbp_MIME = ''-->'',
                      mbp_Description = ''Front cover'', mbp_Width = 0, mbp_Height = 0,
                      mbp_ColorDepth = 0, mbp_IndexedColorCount = 0,
                      mbp_ImageData = bytes_of_string coverUrl\<rparr>
      in (append_Meta f (Picture_Marshal picture), None))"

definition FlacTagger_SetTitle :: "FlacTagger \<Rightarrow> string \<Rightarrow> FlacTagger \<times> error option" where
  "FlacTagger_SetTitle f title =
     (case Get (cmts f) FIELD_TITLE of
        Inl err \<Rightarrow> (f, Some err)
      | Inr titles \<Rightarrow>
          if length titles = 0
          then (case Add (cmts f) FIELD_TITLE title of (c, err) \<Rightarrow> (f\<lparr>cmts := c\<rparr>, err))
          else (f, None))"

definition FlacTagger_SetAlbum :: "FlacTagger \<Rightarrow> string \<Rightarrow> FlacTagger \<times> error option" where
  "FlacTagger_SetAlbum f album =
     (case Get (cmts f) FIELD_ALBUM of
        Inl err \<Rightarrow> (f, Some err)
      | Inr albums \<Rightarrow>
          if length albums = 0
          then (case Add (cmts f) FIELD_ALBUM album of (c, err) \<Rightarrow> (f\<lparr>cmts := c\<rparr>, err))
          else (f, None))"

text \<open>The loop of \<^verbatim>\<open>SetArtist\<close>: one \<^verbatim>\<open>f.cmts.Add(FIELD_ARTIST, artist)\<close> per element,
  in order; what \<^verbatim>\<open>Add\<close> returns is dropped.\<close>

fun Add_each :: "MetaDataBlockVorbisComment \<Rightarrow> string list \<Rightarrow> MetaDataBlockVorbisComment" where
  "Add_each c [] = c"
| "Add_each c (artist # artists) = Add_each (fst (Add c FIELD_ARTIST artist)) artists"

definition FlacTagger_SetArtist :: "FlacTagger \<Rightarrow> string list \<Rightarrow> FlacTagger \<times> error option" where
  "FlacTagger_SetArtist f artists =
     (case Get (cmts f) FIELD_ARTIST of
        Inl err \<Rightarrow> (f, Some err)
      | Inr theArtists \<Rightarrow>
          if length theArtists = 0 then (f\<lparr>cmts := Add_each (cmts f) artists\<rparr>, None)
          else (f, None))"

definition FlacTagger_SetComment :: "FlacTagger \<Rightarrow> string \<Rightarrow> FlacTagger \<times> error option" where
  "FlacTagger_SetComment f comment = (f, None)"

text \<open>\<^verbatim>\<open>Save\<close> appends the marshalled comment map to the chain and writes the file; the
  tagger it returns is the session after the call.\<close>

definition FlacTagger_Save :: "env \<Rightarrow> FlacTagger \<Rightarrow> FlacTagger \<times> io list \<times> error option" where
  "FlacTagger_Save e f =
     (let res = VorbisComment_Marshal (cmts f);
          f' = append_Meta f res
      in (f', File_Save e (file_ptr f') (path f')))"

section \<open>The interface and the dispatcher\<close>

text \<open>A value of the interface \<^verbatim>\<open>Tagger\<close> is one of the two taggers.\<close>

datatype Tagger = Mp3 Mp3Tagger | Flac FlacTagger

definition audioFormatMp3 :: string where
  "audioFormatMp3 = ''mp3''"

definition audioFormatFlac :: string where
  "audioFormatFlac = ''flac''"

definition NewTagger :: "env \<Rightarrow> string \<Rightarrow> string \<Rightarrow> io list \<times> (error + Tagger)" where
  "NewTagger e input format =
     (if ToLower format = audioFormatMp3
      then (case NewMp3Tagger e input of (log, r) \<Rightarrow> (log, map_sum id Mp3 r))
      else if ToLower format = audioFormatFlac
      then (case NewFlacTagger e input of (log, r) \<Rightarrow> (log, map_sum id Flac r))
      else ([], Inl (ErrorString (''format: '' @ format @ '' is not supportted''))))"

text \<open>A call of one of the six setters through the interface, and a session of such
  calls made one after the other on the same tagger, whatever each call returns.\<close>

datatype call =
    CallSetCover bytes string
  | CallSetCoverUrl string
  | CallSetTitle string
  | CallSetAlbum string
  | CallSetArtist "string list"
  | CallSetComment string

fun Mp3Tagger_call :: "Mp3Tagger \<Rightarrow> call \<Rightarrow> Mp3Tagger \<times> error option" where
  "Mp3Tagger_call m (CallSetCover buf mime) = Mp3Tagger_SetCover m buf mime"
| "Mp3Tagger_call m (CallSetCoverUrl u) = Mp3Tagger_SetCoverUrl m u"
| "Mp3Tagger_call m (CallSetTitle s) = Mp3Tagger_SetTitle m s"
| "Mp3Tagger_call m (CallSetAlbum s) = Mp3Tagger_SetAlbum m s"
| "Mp3Tagger_call m (CallSetArtist ss) = Mp3Tagger_SetArtist m ss"
| "Mp3Tagger_call m (CallSetComment s) = Mp3Tagger_SetComment m s"

fun FlacTagger_call :: "env \<Rightarrow> FlacTagger \<Rightarrow> call \<Rightarrow> FlacTagger \<times> error option" where
  "FlacTagger_call e f (CallSetCover buf mime) = FlacTagger_SetCover e f buf mime"
| "FlacTagger_call e f (CallSetCoverUrl u) = FlacTagger_SetCoverUrl f u"
| "FlacTagger_call e f (CallSetTitle s) = FlacTagger_SetTitle f s"
| "FlacTagger_call e f (CallSetAlbum s) = FlacTagger_SetAlbum f s"
| "FlacTagger_call e f (CallSetArtist ss) = FlacTagger_SetArtist f ss"
| "FlacTagger_call e f (CallSetComment s) = FlacTagger_SetComment f s"

fun Mp3Tagger_calls :: "Mp3Tagger \<Rightarrow> call list \<Rightarrow> Mp3Tagger" where
  "Mp3Tagger_calls m [] = m"
| "Mp3Tagger_calls m (c # cs) = Mp3Tagger_calls (fst (Mp3Tagger_call m c)) cs"

fun FlacTagger_calls :: "env \<Rightarrow> FlacTagger \<Rightarrow> call list \<Rightarrow> FlacTagger" where
  "FlacTagger_calls e f [] = f"
| "FlacTagger_calls e f (c # cs) = FlacTagger_calls e (fst (FlacTagger_call e f c)) cs"

section \<open>Reading a comment list\<close>

text \<open>The field name and the value of a comment \<^verbatim>\<open>NAME=value\<close>, split at its first
  \<^verbatim>\<open>=\<close>, and the values that \<^verbatim>\<open>Get\<close> collects for a key from a list of comments that
  all have one.\<close>

definition field_name :: "string \<Rightarrow> string" where
  "field_name cmt = takeWhile (\<lambda>c. c \<noteq> CHR ''='') cmt"

definition field_value :: "string \<Rightarrow> string" where
  "field_value cmt = tl (dropWhile (\<lambda>c. c \<noteq> CHR ''='') cmt)"

definition matching_values :: "string list \<Rightarrow> string \<Rightarrow> string list" where
  "matching_values cs key = map field_value (filter (\<lambda>c. EqualFold (field_name c) key) cs)"

section \<open>Reading a picture block back\<close>

text \<open>A reader for the layout that \<open>Picture_Marshal\<close> writes (the PICTURE block of the
  FLAC format): big-endian 32-bit fields, each string and the image data after its
  length. It says what a tool that reads the file finds in a picture block.\<close>

definition decodeUint32 :: "bytes \<Rightarrow> 32 word" where
  "decodeUint32 bs =
     (case bs of
        [a, b, c, d] \<Rightarrow>
          or (push_bit 24 (ucast a)) (or (push_bit 16 (ucast b)) (or (push_bit 8 (ucast c)) (ucast d)))
      | _ \<Rightarrow> 0)"

definition take_n :: "nat \<Rightarrow> bytes \<Rightarrow> (bytes \<times> bytes) option" where
  "take_n n bs = (if n \<le> length bs then Some (take n bs, drop n bs) else None)"

definition read_Picture :: "MetaDataBlock \<Rightarrow> MetadataBlockPicture option" where
  "read_Picture b =
     (if Type b \<noteq> Picture then None
      else
        Option.bind (take_n 4 (Data b)) (\<lambda>(t, r1).
        Option.bind (take_n 4 r1) (\<lambda>(ml, r2).
        Option.bind (take_n (unat (decodeUint32 ml)) r2) (\<lambda>(mime, r3).
        Option.bind (take_n 4 r3) (\<lambda>(dl, r4).
        Option.bind (take_n (unat (decodeUint32 dl)) r4) (\<lambda>(desc, r5).
        Option.bind (take_n 4 r5) (\<lambda>(w, r6).
        Option.bind (take_n 4 r6) (\<lambda>(h, r7).
        Option.bind (take_n 4 r7) (\<lambda>(depth, r8).
        Option.bind (take_n 4 r8) (\<lambda>(colors, r9).
        Option.bind (take_n 4 r9) (\<lambda>(il, r10).
        Option.bind (take_n (unat (decodeUint32 il)) r10) (\<lambda>(img, r11).
          Some \<lparr>mbp_PictureType = decodeUint32 t, mbp_MIME = string_of_bytes mime,
                mbp_Description = string_of_bytes desc, mbp_Width = decodeUint32 w,
                mbp_Height = decodeUint32 h, mbp_ColorDepth = decodeUint32 depth,
                mbp_IndexedColorCount = decodeUint32 colors, mbp_ImageData = img\<rparr>))))))))))))"

section \<open>Example sessions\<close>

text \<open>An empty tag, an MP3 tag and a FLAC file that already have a title and an album,
  an MP3 tag that already has a front cover, a FLAC session without comments and one
  whose second comment has no \<^verbatim>\<open>=\<close>; an environment in which every file operation succeeds, and one in which writing the tag
  fails while closing the file succeeds.\<close>

definition tag_empty :: Tag where
  "tag_empty = \<lparr>frames = Map.empty, sequences = Map.empty, defaultEncoding = EncodingUTF8\<rparr>"

definition tag_original :: Tag where
  "tag_original =
     \<lparr>frames = [''TIT2'' \<mapsto> \<lparr>tf_Encoding = EncodingUTF8, tf_Text = ''Original''\<rparr>,
                ''TALB'' \<mapsto> \<lparr>tf_Encoding = EncodingUTF8, tf_Text = ''First''\<rparr>],
      sequences = Map.empty, defaultEncoding = EncodingUTF8\<rparr>"

definition comments_original :: MetaDataBlockVorbisComment where
  "comments_original =
     \<lparr>Vendor = ''reference libFLAC 1.3.2'', Comments = [''TITLE=Original'', ''album=First'']\<rparr>"

definition file_original :: File where
  "file_original =
     \<lparr>Meta = [\<lparr>Type = 0, Data = replicate 34 0\<rparr>, VorbisComment_Marshal comments_original],
      Frames = [0xFF, 0xF8]\<rparr>"

definition flac_original :: FlacTagger where
  "flac_original = \<lparr>path = ''song.flac'', file_ptr = file_original, cmts = comments_original\<rparr>"

definition env_ok :: env where
  "env_ok =
     \<lparr>id3v2_Open = (\<lambda>p. Inr tag_original),
      tag_Save = (\<lambda>t. None),
      tag_Close = (\<lambda>t. None),
      flac_ParseFile = (\<lambda>p. Inr file_original),
      ParseFromMetaDataBlock = (\<lambda>b. Inr comments_original),
      image_Decode = (\<lambda>b. if b = [] then Inl (ExternalError ''image: unknown format'')
                           else Inr (1, 1, 24, 0)),
      file_Save = (\<lambda>f p. None)\<rparr>"

definition env_save_fails :: env where
  "env_save_fails =
     env_ok\<lparr>tag_Save := (\<lambda>t. Some (ExternalError ''open song.mp3-id3v2: permission denied''))\<rparr>"

definition tag_with_cover :: Tag where
  "tag_with_cover =
     \<lparr>frames = Map.empty,
      sequences = [''APIC'' \<mapsto>
        [FPicture \<lparr>pf_Encoding = EncodingISO, pf_MimeType = ''image/jpeg'',
                   pf_PictureType = PTFrontCover, pf_Description = ''Front cover'',
                   pf_Picture = [0xFF, 0xD8, 0xFF]\<rparr>]],
      defaultEncoding = EncodingUTF8\<rparr>"

definition flac_untitled :: FlacTagger where
  "flac_untitled =
     \<lparr>path = ''new.flac'',
      file_ptr = \<lparr>Meta = [\<lparr>Type = 0, Data = replicate 34 0\<rparr>], Frames = [0xFF, 0xF8]\<rparr>,
      cmts = flacvorbis_New\<rparr>"

definition flac_malformed :: FlacTagger where
  "flac_malformed =
     \<lparr>path = ''odd.flac'',
      file_ptr = \<lparr>Meta = [\<lparr>Type = 0, Data = replicate 34 0\<rparr>], Frames = [0xFF, 0xF8]\<rparr>,
      cmts = \<lparr>Vendor = ''reference libFLAC 1.3.2'',
              Comments = [''ALBUM=First'', ''garbage'']\<rparr>\<rparr>"

section \<open>Properties\<close>

subsection \<open>The dispatcher\<close>

lemma toLower_byte_upper:
  assumes "65 \<le> (of_char c :: nat)" "(of_char c :: nat) \<le> 90"
  shows "toLower_byte c = x \<longleftrightarrow> (of_char c :: nat) + 32 = of_char x"
proof -
  have "take_bit 8 ((of_char c :: nat) + 32) = of_char c + 32"
    using assms by (simp add: take_bit_nat_eq_self)
  moreover have "toLower_byte c = char_of ((of_char c :: nat) + 32)"
    using assms by (simp add: toLower_byte_def)
  ultimately show ?thesis
    by (simp add: char_of_eq_iff del: of_char_eq_iff)
qed

lemma toLower_byte_letter:
  assumes "(of_char l :: nat) = of_char u + 32"
    and "65 \<le> (of_char u :: nat)" "(of_char u :: nat) \<le> 90"
  shows "toLower_byte c = l \<longleftrightarrow> c = l \<or> c = u"
proof (cases "65 \<le> (of_char c :: nat) \<and> (of_char c :: nat) \<le> 90")
  case True
  then have "toLower_byte c = l \<longleftrightarrow> (of_char c :: nat) = of_char u"
    using assms by (simp add: toLower_byte_upper del: of_char_eq_iff)
  moreover have "c \<noteq> l" using True assms by auto
  ultimately show ?thesis by simp
next
  case False
  then have "toLower_byte c = c" by (auto simp: toLower_byte_def Let_def)
  moreover have "c \<noteq> u" using False assms by auto
  ultimately show ?thesis by simp
qed

lemma toLower_byte_other:
  assumes "(of_char x :: nat) < 65 \<or> 90 < (of_char x :: nat)"
    and "(of_char x :: nat) < 97 \<or> 122 < (of_char x :: nat)"
  shows "toLower_byte c = x \<longleftrightarrow> c = x"
proof (cases "65 \<le> (of_char c :: nat) \<and> (of_char c :: nat) \<le> 90")
  case True
  then have "toLower_byte c = x \<longleftrightarrow> (of_char c :: nat) + 32 = of_char x"
    by (simp add: toLower_byte_upper del: of_char_eq_iff)
  moreover have "c \<noteq> x" using True assms by auto
  ultimately show ?thesis using True assms by auto
next
  case False
  then show ?thesis by (auto simp: toLower_byte_def Let_def)
qed

lemma map_eq_3:
  "map f xs = [a, b, c] \<longleftrightarrow> (\<exists>x y z. xs = [x, y, z] \<and> f x = a \<and> f y = b \<and> f z = c)"
  by (auto simp: map_eq_Cons_conv)

lemma ToLower_mp3: "ToLower s = ''mp3'' \<longleftrightarrow> s \<in> {''mp3'', ''mP3'', ''Mp3'', ''MP3''}"
  unfolding ToLower_def map_eq_3
  apply (simp add: toLower_byte_letter [of "CHR ''m''" "CHR ''M''"]
      toLower_byte_letter [of "CHR ''p''" "CHR ''P''"]
      toLower_byte_other [of "CHR ''3''"])
  apply auto
  done

lemma map_eq_4:
  "map f xs = [a, b, c, d] \<longleftrightarrow>
     (\<exists>w x y z. xs = [w, x, y, z] \<and> f w = a \<and> f x = b \<and> f y = c \<and> f z = d)"
  by (auto simp: map_eq_Cons_conv)

lemma ToLower_flac:
  "ToLower s = ''flac'' \<longleftrightarrow>
     s \<in> {''flac'', ''flaC'', ''flAc'', ''flAC'', ''fLac'', ''fLaC'', ''fLAc'', ''fLAC'',
          ''Flac'', ''FlaC'', ''FlAc'', ''FlAC'', ''FLac'', ''FLaC'', ''FLAc'', ''FLAC''}"
  unfolding ToLower_def map_eq_4
  apply (simp add: toLower_byte_letter [of "CHR ''f''" "CHR ''F''"]
      toLower_byte_letter [of "CHR ''l''" "CHR ''L''"]
      toLower_byte_letter [of "CHR ''a''" "CHR ''A''"]
      toLower_byte_letter [of "CHR ''c''" "CHR ''C''"])
  apply auto
  done

text \<open>
  C5. The dispatcher lower-cases the format name and compares it with \<^verbatim>\<open>mp3\<close> and
  \<^verbatim>\<open>flac\<close>: each of the four casings of \<^verbatim>\<open>mp3\<close> gives exactly what the MP3 constructor
  gives for the path (its file access and its tagger or error), each of the sixteen
  casings of \<^verbatim>\<open>flac\<close> gives what the FLAC constructor gives, and every other name fails
  with the error whose message carries the name as it was passed, with no file access at
  all.
\<close>

theorem NewTagger_dispatch:
  "NewTagger e input format =
     (if format \<in> {''mp3'', ''mP3'', ''Mp3'', ''MP3''}
      then (fst (NewMp3Tagger e input), map_sum id Mp3 (snd (NewMp3Tagger e input)))
      else if format \<in>
          {''flac'', ''flaC'', ''flAc'', ''flAC'', ''fLac'', ''fLaC'', ''fLAc'', ''fLAC'',
           ''Flac'', ''FlaC'', ''FlAc'', ''FlAC'', ''FLac'', ''FLaC'', ''FLAc'', ''FLAC''}
      then (fst (NewFlacTagger e input), map_sum id Flac (snd (NewFlacTagger e input)))
      else ([], Inl (ErrorString (''format: '' @ format @ '' is not supportted''))))"
proof -
  have mp3: "ToLower format = audioFormatMp3 \<longleftrightarrow> format \<in> {''mp3'', ''mP3'', ''Mp3'', ''MP3''}"
    unfolding audioFormatMp3_def by (rule ToLower_mp3)
  have flac: "ToLower format = audioFormatFlac \<longleftrightarrow> format \<in>
          {''flac'', ''flaC'', ''flAc'', ''flAC'', ''fLac'', ''fLaC'', ''fLAc'', ''fLAC'',
           ''Flac'', ''FlaC'', ''FlAc'', ''FlAC'', ''FLac'', ''FLaC'', ''FLAc'', ''FLAC''}"
    unfolding audioFormatFlac_def by (rule ToLower_flac)
  show ?thesis
    unfolding NewTagger_def mp3 flac
    by (simp only: split_beta)
qed

subsection \<open>The comment map of the FLAC tagger\<close>

text \<open>\<^verbatim>\<open>Get\<close> in closed form: it fails when some comment has no \<^verbatim>\<open>=\<close>, and otherwise
  returns the values of the comments whose name folds to the key, in order.\<close>

lemma SplitN2_eq:
  "SplitN2 cmt = (if CHR ''='' \<in> set cmt then Some (field_name cmt, field_value cmt) else None)"
proof (cases "dropWhile (\<lambda>c. c \<noteq> CHR ''='') cmt")
  case Nil
  have "CHR ''='' \<notin> set cmt"
    using Nil unfolding dropWhile_eq_Nil_conv by blast
  moreover have "SplitN2 cmt = None"
    unfolding SplitN2_def Nil by simp
  ultimately show ?thesis by simp
next
  case (Cons x v)
  have "CHR ''='' \<in> set cmt"
  proof (rule ccontr)
    assume "CHR ''='' \<notin> set cmt"
    then have "\<forall>c\<in>set cmt. c \<noteq> CHR ''=''" by blast
    then have "dropWhile (\<lambda>c. c \<noteq> CHR ''='') cmt = []"
      unfolding dropWhile_eq_Nil_conv .
    with Cons show False by simp
  qed
  moreover have "SplitN2 cmt = Some (field_name cmt, field_value cmt)"
    unfolding SplitN2_def field_name_def field_value_def Cons by simp
  ultimately show ?thesis by simp
qed

lemma field_name_key_val: "CHR ''='' \<notin> set k \<Longrightarrow> field_name (k @ CHR ''='' # v) = k"
  by (induction k) (auto simp: field_name_def)

lemma field_value_key_val: "CHR ''='' \<notin> set k \<Longrightarrow> field_value (k @ CHR ''='' # v) = v"
  by (induction k) (auto simp: field_value_def)

lemma Get_loop_eq:
  "Get_loop cs key res =
     (if list_all (\<lambda>c. CHR ''='' \<in> set c) cs then Inr (res @ matching_values cs key)
      else Inl ErrorMalformedComment)"
  by (induction cs arbitrary: res) (simp_all add: SplitN2_eq matching_values_def)

lemma Get_eq:
  "Get c key =
     (if list_all (\<lambda>c. CHR ''='' \<in> set c) (Comments c) then Inr (matching_values (Comments c) key)
      else Inl ErrorMalformedComment)"
  by (simp add: Get_def Get_loop_eq)

lemma matching_values_append:
  "matching_values (xs @ ys) key = matching_values xs key @ matching_values ys key"
  by (simp add: matching_values_def)

lemma matching_values_Cons:
  "matching_values (c # cs) key =
     (if EqualFold (field_name c) key then field_value c # matching_values cs key
      else matching_values cs key)"
  by (simp add: matching_values_def)

lemma matching_values_single:
  "CHR ''='' \<notin> set k \<Longrightarrow>
     matching_values [k @ CHR ''='' # v] key = (if EqualFold k key then [v] else [])"
  using field_name_key_val [of k v] field_value_key_val [of k v]
  by (simp add: matching_values_def)

lemma matching_values_nonempty:
  "c \<in> set cs \<Longrightarrow> EqualFold (field_name c) key \<Longrightarrow> matching_values cs key \<noteq> []"
  by (auto simp: matching_values_def filter_empty_conv)

lemma EqualFold_refl: "EqualFold k k"
  by (simp add: EqualFold_def)

lemma FIELD_valid:
  "\<not> list_ex invalid_key_char FIELD_TITLE"
  "\<not> list_ex invalid_key_char FIELD_ALBUM"
  "\<not> list_ex invalid_key_char FIELD_ARTIST"
  "CHR ''='' \<notin> set FIELD_TITLE" "CHR ''='' \<notin> set FIELD_ALBUM" "CHR ''='' \<notin> set FIELD_ARTIST"
  by (simp_all add: FIELD_TITLE_def FIELD_ALBUM_def FIELD_ARTIST_def invalid_key_char_def)

lemma Add_FIELD:
  "Add c FIELD_TITLE v = (c\<lparr>Comments := Comments c @ [FIELD_TITLE @ ''='' @ v]\<rparr>, None)"
  "Add c FIELD_ALBUM v = (c\<lparr>Comments := Comments c @ [FIELD_ALBUM @ ''='' @ v]\<rparr>, None)"
  "Add c FIELD_ARTIST v = (c\<lparr>Comments := Comments c @ [FIELD_ARTIST @ ''='' @ v]\<rparr>, None)"
  by (simp_all add: Add_def FIELD_valid)

lemma Add_each_Comments:
  "Comments (Add_each c artists) = Comments c @ map (\<lambda>a. FIELD_ARTIST @ CHR ''='' # a) artists"
  "Vendor (Add_each c artists) = Vendor c"
  by (induction artists arbitrary: c) (simp_all add: Add_FIELD)

lemma matching_values_artists:
  "matching_values (map (\<lambda>a. FIELD_ARTIST @ CHR ''='' # a) artists) FIELD_ARTIST = artists"
proof (induction artists)
  case Nil
  show ?case by (simp add: matching_values_def)
next
  case (Cons a as)
  show ?case
    by (simp add: matching_values_Cons Cons.IH field_name_key_val field_value_key_val
        FIELD_valid EqualFold_refl)
qed

lemma list_all_artists:
  "list_all (\<lambda>c. CHR ''='' \<in> set c) (map (\<lambda>a. FIELD_ARTIST @ CHR ''='' # a) artists)"
  by (induction artists) (simp_all add: FIELD_ARTIST_def)

text \<open>The FLAC tagger stores one \<^verbatim>\<open>ARTIST\<close> comment per element of the list, in the
  order of the list, when the artist query returns no value.\<close>

lemma flac_SetArtist_keeps_order:
  assumes "Get (cmts f) FIELD_ARTIST = Inr []"
  shows "FlacTagger_SetArtist f artists =
           (f\<lparr>cmts := (cmts f)\<lparr>Comments := Comments (cmts f) @ map (\<lambda>a. FIELD_ARTIST @ CHR ''='' # a) artists\<rparr>\<rparr>, None)
         \<and> Get (cmts (fst (FlacTagger_SetArtist f artists))) FIELD_ARTIST = Inr artists"
proof -
  from assms have wf: "list_all (\<lambda>c. CHR ''='' \<in> set c) (Comments (cmts f))"
    and none: "matching_values (Comments (cmts f)) FIELD_ARTIST = []"
    by (auto simp: Get_eq split: if_splits)
  have eq: "Add_each (cmts f) artists = (cmts f)\<lparr>Comments := Comments (cmts f) @ map (\<lambda>a. FIELD_ARTIST @ CHR ''='' # a) artists\<rparr>"
    by (rule MetaDataBlockVorbisComment.equality) (simp_all add: Add_each_Comments)
  have 1: "FlacTagger_SetArtist f artists =
           (f\<lparr>cmts := (cmts f)\<lparr>Comments := Comments (cmts f) @ map (\<lambda>a. FIELD_ARTIST @ CHR ''='' # a) artists\<rparr>\<rparr>, None)"
    using assms by (simp add: FlacTagger_SetArtist_def eq)
  show ?thesis
    unfolding 1
    by (simp add: Get_eq wf none matching_values_append matching_values_artists list_all_artists)
qed

lemma append_Meta_fields:
  "Meta (file_ptr (append_Meta f b)) = Meta (file_ptr f) @ [b]"
  "Frames (file_ptr (append_Meta f b)) = Frames (file_ptr f)"
  "cmts (append_Meta f b) = cmts f"
  "path (append_Meta f b) = path f"
  by (simp_all add: append_Meta_def)

subsection \<open>The frames of the MP3 tagger\<close>

lemma CommonID_simps:
  "CommonID ''Title'' = ''TIT2''"
  "CommonID ''Album/Movie/Show title'' = ''TALB''"
  "CommonID ''Artist'' = ''TPE1''"
  "CommonID ''Comments'' = ''COMM''"
  "CommonID ''Attached picture'' = ''APIC''"
  by (simp_all add: CommonID_def)

lemma Title_SetTitle: "Title (Tag_SetTitle t x) = x"
  by (simp add: Title_def Tag_SetTitle_def GetTextFrame_Text_def AddTextFrame_def CommonID_simps)

lemma GetFrames_SetTitle:
  "GetFrames (Tag_SetTitle t x) ''TIT2'' = [FText \<lparr>tf_Encoding = defaultEncoding t, tf_Text = x\<rparr>]"
  by (simp add: GetFrames_def Tag_SetTitle_def AddTextFrame_def CommonID_simps)

lemma Tag_SetArtist_fields:
  "frames (Tag_SetArtist t x) = (frames t)(''TPE1'' \<mapsto> \<lparr>tf_Encoding = defaultEncoding t, tf_Text = x\<rparr>)"
  "sequences (Tag_SetArtist t x) = sequences t"
  "defaultEncoding (Tag_SetArtist t x) = defaultEncoding t"
  by (simp_all add: Tag_SetArtist_def AddTextFrame_def CommonID_simps)

lemma SetArtist_each_fields:
  "frames (SetArtist_each t xs) =
     (if xs = [] then frames t
      else (frames t)(''TPE1'' \<mapsto> \<lparr>tf_Encoding = defaultEncoding t, tf_Text = last xs\<rparr>))"
  "sequences (SetArtist_each t xs) = sequences t"
  "defaultEncoding (SetArtist_each t xs) = defaultEncoding t"
  by (induction xs arbitrary: t) (simp_all add: Tag_SetArtist_fields)

text \<open>The MP3 tagger calls \<^verbatim>\<open>tag.SetArtist\<close> once per element, and each call overwrites
  the single TPE1 frame: what is left is the last element of the list.\<close>

lemma mp3_SetArtist_keeps_last:
  assumes "GetFrames (tag m) (CommonID ''Artist'') = []" and "artists \<noteq> []"
  shows "GetFrames (tag (fst (Mp3Tagger_SetArtist m artists))) (CommonID ''Artist'') =
     [FText \<lparr>tf_Encoding = defaultEncoding (tag m), tf_Text = last artists\<rparr>]"
  using assms
  by (simp add: Mp3Tagger_SetArtist_def SetArtist_each_fields GetFrames_def CommonID_simps)

lemma sequence_AddFrame_twice:
  "UniqueIdentifier f' = UniqueIdentifier f \<Longrightarrow>
     sequence_AddFrame (sequence_AddFrame s f) f' = sequence_AddFrame s f'"
  by (induction s) auto

lemma length_sequence_AddFrame:
  "length (sequence_AddFrame s f) =
     (if list_ex (\<lambda>g. UniqueIdentifier g = UniqueIdentifier f) s then length s else Suc (length s))"
  by (induction s) (auto simp: )

lemma sequence_AddFrame_absent:
  "\<not> list_ex (\<lambda>g. UniqueIdentifier g = UniqueIdentifier f) s \<Longrightarrow> sequence_AddFrame s f = s @ [f]"
  by (induction s) auto

lemma in_sequence_AddFrame: "f \<in> set (sequence_AddFrame s f)"
  by (induction s) auto

lemma fmt_02X_PTFrontCover: "fmt_02X PTFrontCover = ''03''"
  by code_simp

lemma UniqueIdentifier_front_cover:
  "UniqueIdentifier (FPicture \<lparr>pf_Encoding = enc, pf_MimeType = mime,
      pf_PictureType = PTFrontCover, pf_Description = ''Front cover'', pf_Picture = buf\<rparr>)
     = ''03Front cover''"
  by (simp add: fmt_02X_PTFrontCover)

lemma sequence_of_AddAttachedPicture:
  "sequence_of (AddAttachedPicture t pf) (CommonID ''Attached picture'')
     = sequence_AddFrame (sequence_of t (CommonID ''Attached picture'')) (FPicture pf)"
  by (simp add: AddAttachedPicture_def AddSequenceFrame_def CommonID_simps sequence_of_def)

lemma Mp3Tagger_SetCover_twice:
  "Mp3Tagger_SetCover (fst (Mp3Tagger_SetCover m buf1 mime1)) buf2 mime2 = Mp3Tagger_SetCover m buf2 mime2"
  by (simp add: Mp3Tagger_SetCover_def AddAttachedPicture_def AddSequenceFrame_def CommonID_simps
      sequence_of_def sequence_AddFrame_twice)

lemma sequence_of_tag_empty: "sequence_of tag_empty i = []"
  by (simp add: sequence_of_def tag_empty_def)

lemma sequence_of_tag_with_cover:
  "sequence_of tag_with_cover (CommonID ''Attached picture'') =
     [FPicture \<lparr>pf_Encoding = EncodingISO, pf_MimeType = ''image/jpeg'',
                pf_PictureType = PTFrontCover, pf_Description = ''Front cover'',
                pf_Picture = [0xFF, 0xD8, 0xFF]\<rparr>]"
  by (simp add: sequence_of_def tag_with_cover_def CommonID_simps)

subsection \<open>Existing titles and albums are kept\<close>

text \<open>
  C1. A set call for a field that the loaded tag data already has leaves the session as
  it is, on both taggers: the MP3 tagger when the tag's title (album) is not empty, the
  FLAC tagger when some comment has the field name \<^verbatim>\<open>TITLE\<close> (\<^verbatim>\<open>ALBUM\<close>), in any
  casing. The session is what \<^verbatim>\<open>Save\<close> writes, so the field that is written is the one
  that was loaded.
\<close>

theorem fill_if_absent_keeps_existing:
  "(Title (tag m) \<noteq> [] \<longrightarrow> Mp3Tagger_SetTitle m title = (m, None))
   \<and> (Album (tag m) \<noteq> [] \<longrightarrow> Mp3Tagger_SetAlbum m album = (m, None))
   \<and> (c \<in> set (Comments (cmts f)) \<and> EqualFold (field_name c) FIELD_TITLE
        \<longrightarrow> fst (FlacTagger_SetTitle f title) = f)
   \<and> (c' \<in> set (Comments (cmts f)) \<and> EqualFold (field_name c') FIELD_ALBUM
        \<longrightarrow> fst (FlacTagger_SetAlbum f album) = f)"
proof -
  have mp3: "Title (tag m) \<noteq> [] \<longrightarrow> Mp3Tagger_SetTitle m title = (m, None)"
    "Album (tag m) \<noteq> [] \<longrightarrow> Mp3Tagger_SetAlbum m album = (m, None)"
    by (simp_all add: Mp3Tagger_SetTitle_def Mp3Tagger_SetAlbum_def)
  have flac: "fst (FlacTagger_SetTitle f title) = f"
    if "c \<in> set (Comments (cmts f))" "EqualFold (field_name c) FIELD_TITLE"
    using matching_values_nonempty [OF that]
    by (simp add: FlacTagger_SetTitle_def Get_eq)
  have flac2: "fst (FlacTagger_SetAlbum f album) = f"
    if "c' \<in> set (Comments (cmts f))" "EqualFold (field_name c') FIELD_ALBUM"
    using matching_values_nonempty [OF that]
    by (simp add: FlacTagger_SetAlbum_def Get_eq)
  from mp3 flac flac2 show ?thesis by blast
qed

text \<open>On a tag and on a comment block whose title is \<^verbatim>\<open>Original\<close>, setting the title
  \<^verbatim>\<open>New\<close> changes nothing, and \<^verbatim>\<open>Save\<close> then writes the tag that was loaded.\<close>

lemma Mp3Tagger_Save_eq:
  "Mp3Tagger_Save e m = ([IO_TagSave (tag m), IO_TagClose (tag m)], tag_Close e (tag m))"
  by (simp add: Mp3Tagger_Save_def Tag_Save_def Tag_Close_def)

theorem fill_if_absent_keeps_existing_witness:
  "Title (tag \<lparr>tag = tag_original\<rparr>) = ''Original''
   \<and> Mp3Tagger_SetTitle \<lparr>tag = tag_original\<rparr> ''New'' = (\<lparr>tag = tag_original\<rparr>, None)
   \<and> Album (tag \<lparr>tag = tag_original\<rparr>) = ''First''
   \<and> Mp3Tagger_SetAlbum \<lparr>tag = tag_original\<rparr> ''Second'' = (\<lparr>tag = tag_original\<rparr>, None)
   \<and> Mp3Tagger_Save env_ok (fst (Mp3Tagger_SetTitle \<lparr>tag = tag_original\<rparr> ''New''))
       = ([IO_TagSave tag_original, IO_TagClose tag_original], None)
   \<and> ''TITLE=Original'' \<in> set (Comments (cmts flac_original))
   \<and> EqualFold (field_name ''TITLE=Original'') FIELD_TITLE
   \<and> fst (FlacTagger_SetTitle flac_original ''New'') = flac_original
   \<and> ''album=First'' \<in> set (Comments (cmts flac_original))
   \<and> EqualFold (field_name ''album=First'') FIELD_ALBUM
   \<and> fst (FlacTagger_SetAlbum flac_original ''Second'') = flac_original
   \<and> Get (cmts (fst (FlacTagger_SetTitle flac_original ''New''))) FIELD_TITLE
       = Inr [''Original'']
   \<and> last (Meta (file_ptr (fst (FlacTagger_Save env_ok
         (fst (FlacTagger_SetTitle flac_original ''New''))))))
       = VorbisComment_Marshal comments_original"
proof -
  have t: "Title (tag \<lparr>tag = tag_original\<rparr>) = ''Original''"
    by (simp add: Title_def GetTextFrame_Text_def CommonID_simps tag_original_def)
  have a: "Album (tag \<lparr>tag = tag_original\<rparr>) = ''First''"
    by (simp add: Album_def GetTextFrame_Text_def CommonID_simps tag_original_def)
  have c1: "''TITLE=Original'' \<in> set (Comments (cmts flac_original))"
    and c2: "''album=First'' \<in> set (Comments (cmts flac_original))"
    by (simp_all add: flac_original_def comments_original_def)
  have e1: "EqualFold (field_name ''TITLE=Original'') FIELD_TITLE"
    and e2: "EqualFold (field_name ''album=First'') FIELD_ALBUM"
    by code_simp+
  have g: "Get (cmts flac_original) FIELD_TITLE = Inr [''Original'']"
    by code_simp
  note inst = fill_if_absent_keeps_existing [where m = "\<lparr>tag = tag_original\<rparr>"
      and title = "''New''" and album = "''Second''" and f = flac_original
      and c = "''TITLE=Original''" and c' = "''album=First''"]
  have w: "last (Meta (file_ptr (fst (FlacTagger_Save env_ok flac_original))))
       = VorbisComment_Marshal comments_original"
    by (simp add: FlacTagger_Save_def Let_def append_Meta_fields flac_original_def)
  from inst t a c1 c2 e1 e2 g w show ?thesis
    by (simp add: Mp3Tagger_Save_eq env_ok_def)
qed

subsection \<open>The first title wins\<close>

lemma mp3_SetTitle_absent:
  assumes "Title (tag m) = []"
  shows "Mp3Tagger_SetTitle m x = (m\<lparr>tag := Tag_SetTitle (tag m) x\<rparr>, None)"
  using assms by (simp add: Mp3Tagger_SetTitle_def)

lemma mp3_SetTitle_present:
  assumes "Title (tag m) \<noteq> []"
  shows "Mp3Tagger_SetTitle m x = (m, None)"
  using assms by (simp add: Mp3Tagger_SetTitle_def)

lemma flac_SetTitle_absent:
  assumes "Get (cmts f) FIELD_TITLE = Inr []"
  shows "FlacTagger_SetTitle f x =
           (f\<lparr>cmts := (cmts f)\<lparr>Comments := Comments (cmts f) @ [FIELD_TITLE @ CHR ''='' # x]\<rparr>\<rparr>, None)"
  using assms by (simp add: FlacTagger_SetTitle_def Add_FIELD)

lemma flac_SetTitle_present:
  assumes "Get (cmts f) FIELD_TITLE = Inr (v # vs)"
  shows "FlacTagger_SetTitle f y = (f, None)"
  using assms by (simp add: FlacTagger_SetTitle_def)

lemma Get_after_Add_TITLE:
  assumes "Get c FIELD_TITLE = Inr []"
  shows "Get (c\<lparr>Comments := Comments c @ [FIELD_TITLE @ CHR ''='' # x]\<rparr>) FIELD_TITLE = Inr [x]"
proof -
  from assms have wf: "list_all (\<lambda>c. CHR ''='' \<in> set c) (Comments c)"
    and none: "matching_values (Comments c) FIELD_TITLE = []"
    by (auto simp: Get_eq split: if_splits)
  have "CHR ''='' \<in> set (FIELD_TITLE @ CHR ''='' # x)" by simp
  then show ?thesis
    by (simp add: Get_eq wf none matching_values_append matching_values_single FIELD_valid
        EqualFold_refl)
qed

lemma Get_no_match:
  assumes "list_all (\<lambda>c. CHR ''='' \<in> set c) (Comments c)"
    and "\<not> list_ex (\<lambda>c. EqualFold (field_name c) key) (Comments c)"
  shows "Get c key = Inr []"
proof -
  from assms(2) have "filter (\<lambda>c. EqualFold (field_name c) key) (Comments c) = []"
    by (simp add: filter_empty_conv list_ex_iff)
  then have "matching_values (Comments c) key = []"
    by (simp add: matching_values_def)
  with assms(1) show ?thesis by (simp add: Get_eq)
qed

lemma flac_SetTitle_malformed:
  assumes "\<not> list_all (\<lambda>c. CHR ''='' \<in> set c) (Comments (cmts f))"
  shows "FlacTagger_SetTitle f x = (f, Some ErrorMalformedComment)"
  using assms by (simp add: FlacTagger_SetTitle_def Get_eq)

text \<open>
  C8, as amended. On a session without a title, two calls \<^verbatim>\<open>SetTitle(x)\<close> leave exactly
  one title, \<open>x\<close>, and a third call with another value \<open>y\<close> leaves the session as the
  first call left it. For the MP3 tagger the session has no title when the tag's title is
  empty, and \<open>x\<close> is not empty. For the FLAC tagger no comment of the session has the
  field name \<^verbatim>\<open>TITLE\<close> (in any casing) and every comment of the session contains \<^verbatim>\<open>=\<close>;
  when some comment of a FLAC session has no \<^verbatim>\<open>=\<close>, \<^verbatim>\<open>SetTitle\<close> returns
  \<^verbatim>\<open>ErrorMalformedComment\<close> and stores nothing.
\<close>

theorem first_write_wins:
  "(Title (tag m) = [] \<and> x \<noteq> [] \<longrightarrow>
      GetFrames (tag (Mp3Tagger_calls m [CallSetTitle x, CallSetTitle x])) (CommonID ''Title'')
        = [FText \<lparr>tf_Encoding = defaultEncoding (tag m), tf_Text = x\<rparr>]
      \<and> Title (tag (Mp3Tagger_calls m [CallSetTitle x, CallSetTitle x])) = x
      \<and> Mp3Tagger_calls m [CallSetTitle x, CallSetTitle x] = Mp3Tagger_calls m [CallSetTitle x]
      \<and> Mp3Tagger_calls m [CallSetTitle x, CallSetTitle x, CallSetTitle y]
        = Mp3Tagger_calls m [CallSetTitle x])
   \<and> (list_all (\<lambda>c. CHR ''='' \<in> set c) (Comments (cmts f))
        \<and> \<not> list_ex (\<lambda>c. EqualFold (field_name c) FIELD_TITLE) (Comments (cmts f)) \<longrightarrow>
      Get (cmts (FlacTagger_calls e f [CallSetTitle x, CallSetTitle x])) FIELD_TITLE = Inr [x]
      \<and> Comments (cmts (FlacTagger_calls e f [CallSetTitle x, CallSetTitle x]))
        = Comments (cmts f) @ [''TITLE='' @ x]
      \<and> FlacTagger_calls e f [CallSetTitle x, CallSetTitle x] = FlacTagger_calls e f [CallSetTitle x]
      \<and> FlacTagger_calls e f [CallSetTitle x, CallSetTitle x, CallSetTitle y]
        = FlacTagger_calls e f [CallSetTitle x])
   \<and> (\<not> list_all (\<lambda>c. CHR ''='' \<in> set c) (Comments (cmts f)) \<longrightarrow>
      FlacTagger_SetTitle f x = (f, Some ErrorMalformedComment))"
proof (intro conjI impI)
  assume a: "Title (tag m) = [] \<and> x \<noteq> []"
  define m1 where "m1 = m\<lparr>tag := Tag_SetTitle (tag m) x\<rparr>"
  have 1: "Mp3Tagger_SetTitle m x = (m1, None)"
    using a by (simp add: mp3_SetTitle_absent m1_def)
  have t1: "Title (tag m1) = x" by (simp add: m1_def Title_SetTitle)
  then have 2: "Mp3Tagger_SetTitle m1 z = (m1, None)" for z
    using a by (simp add: mp3_SetTitle_present)
  have calls: "Mp3Tagger_calls m [CallSetTitle x] = m1"
    "Mp3Tagger_calls m [CallSetTitle x, CallSetTitle x] = m1"
    "Mp3Tagger_calls m [CallSetTitle x, CallSetTitle x, CallSetTitle y] = m1"
    by (simp_all add: 1 2)
  show "GetFrames (tag (Mp3Tagger_calls m [CallSetTitle x, CallSetTitle x])) (CommonID ''Title'')
        = [FText \<lparr>tf_Encoding = defaultEncoding (tag m), tf_Text = x\<rparr>]"
    unfolding calls by (simp add: m1_def GetFrames_SetTitle CommonID_simps)
  show "Title (tag (Mp3Tagger_calls m [CallSetTitle x, CallSetTitle x])) = x"
    unfolding calls by (rule t1)
  show "Mp3Tagger_calls m [CallSetTitle x, CallSetTitle x] = Mp3Tagger_calls m [CallSetTitle x]"
    unfolding calls ..
  show "Mp3Tagger_calls m [CallSetTitle x, CallSetTitle x, CallSetTitle y]
        = Mp3Tagger_calls m [CallSetTitle x]"
    unfolding calls ..
next
  assume "list_all (\<lambda>c. CHR ''='' \<in> set c) (Comments (cmts f))
        \<and> \<not> list_ex (\<lambda>c. EqualFold (field_name c) FIELD_TITLE) (Comments (cmts f))"
  then have a: "Get (cmts f) FIELD_TITLE = Inr []"
    by (simp add: Get_no_match)
  define f1 where
    "f1 = f\<lparr>cmts := (cmts f)\<lparr>Comments := Comments (cmts f) @ [FIELD_TITLE @ CHR ''='' # x]\<rparr>\<rparr>"
  have 1: "FlacTagger_SetTitle f x = (f1, None)"
    using a by (simp add: flac_SetTitle_absent f1_def)
  have g1: "Get (cmts f1) FIELD_TITLE = Inr [x]"
    using Get_after_Add_TITLE [OF a] by (simp add: f1_def)
  then have 2: "FlacTagger_SetTitle f1 z = (f1, None)" for z
    by (simp add: flac_SetTitle_present)
  have calls: "FlacTagger_calls e f [CallSetTitle x] = f1"
    "FlacTagger_calls e f [CallSetTitle x, CallSetTitle x] = f1"
    "FlacTagger_calls e f [CallSetTitle x, CallSetTitle x, CallSetTitle y] = f1"
    by (simp_all add: 1 2)
  show "Get (cmts (FlacTagger_calls e f [CallSetTitle x, CallSetTitle x])) FIELD_TITLE = Inr [x]"
    unfolding calls by (rule g1)
  show "Comments (cmts (FlacTagger_calls e f [CallSetTitle x, CallSetTitle x]))
        = Comments (cmts f) @ [''TITLE='' @ x]"
    unfolding calls by (simp add: f1_def FIELD_TITLE_def)
  show "FlacTagger_calls e f [CallSetTitle x, CallSetTitle x] = FlacTagger_calls e f [CallSetTitle x]"
    unfolding calls ..
  show "FlacTagger_calls e f [CallSetTitle x, CallSetTitle x, CallSetTitle y]
        = FlacTagger_calls e f [CallSetTitle x]"
    unfolding calls ..
next
  assume "\<not> list_all (\<lambda>c. CHR ''='' \<in> set c) (Comments (cmts f))"
  then show "FlacTagger_SetTitle f x = (f, Some ErrorMalformedComment)"
    by (rule flac_SetTitle_malformed)
qed

text \<open>An empty MP3 tag and a FLAC session without comments, with the titles \<^verbatim>\<open>Song\<close>,
  \<^verbatim>\<open>Song\<close> and \<^verbatim>\<open>Other\<close>; and the FLAC session whose second comment has no \<^verbatim>\<open>=\<close>.\<close>

theorem first_write_wins_witness:
  "Title (tag \<lparr>tag = tag_empty\<rparr>) = []
   \<and> GetFrames (tag (Mp3Tagger_calls \<lparr>tag = tag_empty\<rparr>
          [CallSetTitle ''Song'', CallSetTitle ''Song''])) (CommonID ''Title'')
       = [FText \<lparr>tf_Encoding = EncodingUTF8, tf_Text = ''Song''\<rparr>]
   \<and> Title (tag (Mp3Tagger_calls \<lparr>tag = tag_empty\<rparr>
          [CallSetTitle ''Song'', CallSetTitle ''Song'', CallSetTitle ''Other''])) = ''Song''
   \<and> list_all (\<lambda>c. CHR ''='' \<in> set c) (Comments (cmts flac_untitled))
   \<and> \<not> list_ex (\<lambda>c. EqualFold (field_name c) FIELD_TITLE) (Comments (cmts flac_untitled))
   \<and> Get (cmts (FlacTagger_calls env_ok flac_untitled
          [CallSetTitle ''Song'', CallSetTitle ''Song''])) FIELD_TITLE = Inr [''Song'']
   \<and> Comments (cmts (FlacTagger_calls env_ok flac_untitled
          [CallSetTitle ''Song'', CallSetTitle ''Song'', CallSetTitle ''Other'']))
       = [''TITLE=Song'']
   \<and> \<not> list_all (\<lambda>c. CHR ''='' \<in> set c) (Comments (cmts flac_malformed))
   \<and> FlacTagger_SetTitle flac_malformed ''Song''
       = (flac_malformed, Some ErrorMalformedComment)"
proof -
  have t: "Title (tag \<lparr>tag = tag_empty\<rparr>) = []"
    by (simp add: Title_def GetTextFrame_Text_def tag_empty_def)
  have d: "defaultEncoding (tag \<lparr>tag = tag_empty\<rparr>) = EncodingUTF8"
    by (simp add: tag_empty_def)
  have c: "Comments (cmts flac_untitled) = []"
    by (simp add: flac_untitled_def flacvorbis_New_def)
  have g: "list_all (\<lambda>c. CHR ''='' \<in> set c) (Comments (cmts flac_untitled))"
    "\<not> list_ex (\<lambda>c. EqualFold (field_name c) FIELD_TITLE) (Comments (cmts flac_untitled))"
    by (simp_all add: c)
  have b: "\<not> list_all (\<lambda>c. CHR ''='' \<in> set c) (Comments (cmts flac_malformed))"
    by (simp add: flac_malformed_def)
  note inst = first_write_wins [where m = "\<lparr>tag = tag_empty\<rparr>" and x = "''Song''"
      and y = "''Other''" and f = flac_untitled and e = env_ok]
  note inst2 = first_write_wins [where f = flac_malformed and x = "''Song''"]
  from inst2 b have bad: "FlacTagger_SetTitle flac_malformed ''Song''
       = (flac_malformed, Some ErrorMalformedComment)"
    by blast
  from inst t g have
    m1: "GetFrames (tag (Mp3Tagger_calls \<lparr>tag = tag_empty\<rparr>
          [CallSetTitle ''Song'', CallSetTitle ''Song''])) (CommonID ''Title'')
       = [FText \<lparr>tf_Encoding = defaultEncoding (tag \<lparr>tag = tag_empty\<rparr>), tf_Text = ''Song''\<rparr>]"
    and m2: "Title (tag (Mp3Tagger_calls \<lparr>tag = tag_empty\<rparr>
          [CallSetTitle ''Song'', CallSetTitle ''Song''])) = ''Song''"
    and m3: "Mp3Tagger_calls \<lparr>tag = tag_empty\<rparr> [CallSetTitle ''Song'', CallSetTitle ''Song'']
       = Mp3Tagger_calls \<lparr>tag = tag_empty\<rparr> [CallSetTitle ''Song'']"
    and m4: "Mp3Tagger_calls \<lparr>tag = tag_empty\<rparr>
          [CallSetTitle ''Song'', CallSetTitle ''Song'', CallSetTitle ''Other'']
       = Mp3Tagger_calls \<lparr>tag = tag_empty\<rparr> [CallSetTitle ''Song'']"
    and f1: "Get (cmts (FlacTagger_calls env_ok flac_untitled
          [CallSetTitle ''Song'', CallSetTitle ''Song''])) FIELD_TITLE = Inr [''Song'']"
    and f2: "Comments (cmts (FlacTagger_calls env_ok flac_untitled
          [CallSetTitle ''Song'', CallSetTitle ''Song'']))
       = Comments (cmts flac_untitled) @ [''TITLE='' @ ''Song'']"
    and f3: "FlacTagger_calls env_ok flac_untitled [CallSetTitle ''Song'', CallSetTitle ''Song'']
       = FlacTagger_calls env_ok flac_untitled [CallSetTitle ''Song'']"
    and f4: "FlacTagger_calls env_ok flac_untitled
          [CallSetTitle ''Song'', CallSetTitle ''Song'', CallSetTitle ''Other'']
       = FlacTagger_calls env_ok flac_untitled [CallSetTitle ''Song'']"
    by blast+
  have "Title (tag (Mp3Tagger_calls \<lparr>tag = tag_empty\<rparr>
          [CallSetTitle ''Song'', CallSetTitle ''Song'', CallSetTitle ''Other''])) = ''Song''"
    unfolding m4 m3 [symmetric] by (rule m2)
  moreover have "Comments (cmts (FlacTagger_calls env_ok flac_untitled
          [CallSetTitle ''Song'', CallSetTitle ''Song'', CallSetTitle ''Other'']))
       = [''TITLE=Song'']"
    unfolding f4 f3 [symmetric] f2 c by simp
  ultimately show ?thesis
    using t g m1 [unfolded d] f1 b bad by blast
qed

text \<open>A FLAC session can have no title and still keep none: with the comments
  \<^verbatim>\<open>ALBUM=First\<close> and \<^verbatim>\<open>garbage\<close> no comment has the field name \<^verbatim>\<open>TITLE\<close>, yet
  \<^verbatim>\<open>SetTitle\<close> fails and two calls leave the comments as they were.\<close>

theorem flac_SetTitle_malformed_keeps_no_title:
  "\<not> list_ex (\<lambda>c. EqualFold (field_name c) FIELD_TITLE) (Comments (cmts flac_malformed))
   \<and> FlacTagger_SetTitle flac_malformed ''Song''
       = (flac_malformed, Some ErrorMalformedComment)
   \<and> FlacTagger_calls env_ok flac_malformed [CallSetTitle ''Song'', CallSetTitle ''Song'']
       = flac_malformed
   \<and> Comments (cmts (FlacTagger_calls env_ok flac_malformed
         [CallSetTitle ''Song'', CallSetTitle ''Song''])) = [''ALBUM=First'', ''garbage'']
   \<and> Get (cmts (FlacTagger_calls env_ok flac_malformed
         [CallSetTitle ''Song'', CallSetTitle ''Song''])) FIELD_TITLE \<noteq> Inr [''Song'']"
proof -
  have n: "\<not> list_ex (\<lambda>c. EqualFold (field_name c) FIELD_TITLE)
      (Comments (cmts flac_malformed))"
    by code_simp
  have b: "\<not> list_all (\<lambda>c. CHR ''='' \<in> set c) (Comments (cmts flac_malformed))"
    by (simp add: flac_malformed_def)
  have s: "FlacTagger_SetTitle flac_malformed z = (flac_malformed, Some ErrorMalformedComment)"
    for z
    using b by (rule flac_SetTitle_malformed)
  have calls: "FlacTagger_calls env_ok flac_malformed [CallSetTitle ''Song'', CallSetTitle ''Song'']
       = flac_malformed"
    by (simp add: s)
  have c: "Comments (cmts flac_malformed) = [''ALBUM=First'', ''garbage'']"
    by (simp add: flac_malformed_def)
  have g: "Get (cmts flac_malformed) FIELD_TITLE = Inl ErrorMalformedComment"
    using b by (simp add: Get_eq)
  from n s calls c g show ?thesis
    by simp
qed

subsection \<open>Artists\<close>

text \<open>
  C3. \<^verbatim>\<open>SetArtist\<close> on a session without artists is to store one artist entry per element
  of the list, in order. The FLAC tagger does. The MP3 tagger, on an empty tag and the list
  A, B, C, ends with one artist frame, whose text is C.
\<close>

theorem mp3_SetArtist_three:
  "GetFrames tag_empty (CommonID ''Artist'') = []
   \<and> GetFrames (tag (fst (Mp3Tagger_SetArtist \<lparr>tag = tag_empty\<rparr> [''A'', ''B'', ''C''])))
        (CommonID ''Artist'')
     = [FText \<lparr>tf_Encoding = EncodingUTF8, tf_Text = ''C''\<rparr>]"
proof -
  have e: "GetFrames (tag \<lparr>tag = tag_empty\<rparr>) (CommonID ''Artist'') = []"
    by (simp add: GetFrames_def tag_empty_def sequence_of_def)
  show ?thesis
    using e mp3_SetArtist_keeps_last [OF e, of "[''A'', ''B'', ''C'']"]
    by (simp add: tag_empty_def)
qed

subsection \<open>Covers\<close>

lemma decode_encodeUint32: "decodeUint32 (encodeUint32 n) = n"
  unfolding decodeUint32_def encodeUint32_def list.case
proof (rule bit_word_eqI)
  fix k :: nat
  assume k: "k < LENGTH(32)"
  consider "k < 8" | "8 \<le> k" "k < 16" | "16 \<le> k" "k < 24" | "24 \<le> k" "k < 32"
    using k by fastforce
  then show "bit (or (push_bit 24 (ucast (ucast (drop_bit 24 n) :: byte)))
       (or (push_bit 16 (ucast (ucast (drop_bit 16 n) :: byte)))
          (or (push_bit 8 (ucast (ucast (drop_bit 8 n) :: byte))) (ucast (ucast n :: byte))))
        :: 32 word) k
      = bit n k"
    by cases (auto simp: bit_simps)
qed

lemma length_encodeUint32: "length (encodeUint32 n) = 4"
  by (simp add: encodeUint32_def)

lemma take_n_append: "take_n (length xs) (xs @ r) = Some (xs, r)"
  by (simp add: take_n_def)

lemma take_n_encodeUint32: "take_n 4 (encodeUint32 n @ r) = Some (encodeUint32 n, r)"
  using take_n_append [of "encodeUint32 n" r] by (simp add: length_encodeUint32)

lemma unat_uint32_len: "length xs < 2 ^ 32 \<Longrightarrow> unat (uint32_len xs) = length xs"
  by (simp add: uint32_len_def unat_of_nat)

lemma unat_of_char: "unat (of_char c :: byte) = of_char c"
proof -
  have "(of_char c :: nat) < 2 ^ 8" by (cases c) simp
  then have "unat (of_nat (of_char c) :: byte) = of_char c"
    by (simp add: unat_of_nat)
  then show ?thesis by (simp add: of_nat_of_char)
qed

lemma string_of_bytes_of_string: "string_of_bytes (bytes_of_string s) = s"
  by (induction s) (simp_all add: string_of_bytes_def bytes_of_string_def unat_of_char)

lemma length_bytes_of_string: "length (bytes_of_string s) = length s"
  by (simp add: bytes_of_string_def)

lemma take_n_string:
  "length s < 2 ^ 32 \<Longrightarrow>
     take_n (unat (uint32_len s)) (bytes_of_string s @ r) = Some (bytes_of_string s, r)"
  using take_n_append [of "bytes_of_string s" r]
  by (simp add: unat_uint32_len length_bytes_of_string)

lemma take_n_bytes:
  "length (bs :: bytes) < 2 ^ 32 \<Longrightarrow> take_n (unat (uint32_len bs)) (bs @ r) = Some (bs, r)"
  using take_n_append [of bs r] by (simp add: unat_uint32_len)

lemma take_n_bytes_end:
  "length (bs :: bytes) < 2 ^ 32 \<Longrightarrow> take_n (unat (uint32_len bs)) bs = Some (bs, [])"
  using take_n_bytes [of bs "[]"] by simp

lemma read_Picture_Marshal:
  assumes "length (mbp_MIME pic) < 2 ^ 32" "length (mbp_Description pic) < 2 ^ 32"
    "length (mbp_ImageData pic) < 2 ^ 32"
  shows "read_Picture (Picture_Marshal pic) = Some pic"
  using assms
  by (simp add: read_Picture_def Picture_Marshal_def take_n_encodeUint32 take_n_string
      take_n_bytes_end decode_encodeUint32 string_of_bytes_of_string)

lemma flac_SetCover_cases:
  "FlacTagger_SetCover e f buf mime =
     (case image_Decode e buf of
        Inl err \<Rightarrow> (f, Some err)
      | Inr (w, h, depth, colors) \<Rightarrow>
          (append_Meta f (Picture_Marshal
             \<lparr>mbp_PictureType = PictureTypeFrontCover, mbp_MIME = mime,
              mbp_Description = ''Front cover'', mbp_Width = w, mbp_Height = h,
              mbp_ColorDepth = depth, mbp_IndexedColorCount = colors,
              mbp_ImageData = buf\<rparr>), None))"
  by (simp add: FlacTagger_SetCover_def NewFromImageData_def split: sum.splits prod.splits)

lemma flac_SetCover_ok:
  assumes "FlacTagger_SetCover e f buf mime = (f', None)"
  shows "\<exists>w h depth colors. f' = append_Meta f (Picture_Marshal
             \<lparr>mbp_PictureType = PictureTypeFrontCover, mbp_MIME = mime,
              mbp_Description = ''Front cover'', mbp_Width = w, mbp_Height = h,
              mbp_ColorDepth = depth, mbp_IndexedColorCount = colors,
              mbp_ImageData = buf\<rparr>)"
  using assms unfolding flac_SetCover_cases
  by (auto split: sum.splits prod.splits)

lemma flac_SetCover_failed:
  assumes "FlacTagger_SetCover e f buf mime = (f', Some err)"
  shows "f' = f"
  using assms unfolding flac_SetCover_cases
  by (auto split: sum.splits prod.splits)

lemma Type_Picture_Marshal: "Type (Picture_Marshal pic) = Picture"
  by (simp add: Picture_Marshal_def)

lemma Type_VorbisComment_Marshal: "Type (VorbisComment_Marshal c) = VorbisComment"
  by (simp add: VorbisComment_Marshal_def)

lemma Picture_not_VorbisComment: "Picture \<noteq> VorbisComment"
  by (simp add: Picture_def VorbisComment_def)

text \<open>
  C4, as amended. \<^verbatim>\<open>SetCoverUrl(url)\<close> succeeds on both taggers and stores a front-cover
  picture entry whose MIME type is \<^verbatim>\<open>-->\<close> and whose image data are the bytes of the URL.
  The FLAC tagger appends the entry to the block chain, as a picture block that reads
  back as that entry (for a URL shorter than \<open>2^32\<close> bytes), and the bytes read back as
  the URL. The MP3 tagger stores the entry with \<^verbatim>\<open>sequence.AddFrame\<close>: it is among the
  picture frames afterwards, it is appended when no picture frame has its unique
  identifier (picture type front cover, description \<^verbatim>\<open>Front cover\<close>), and otherwise it
  takes the place of the first frame that has.
\<close>

theorem SetCoverUrl_stores_sentinel_entry:
  assumes pic: "pic = \<lparr>mbp_PictureType = PictureTypeFrontCover, mbp_MIME = ''-->'',
                        mbp_Description = ''Front cover'', mbp_Width = 0, mbp_Height = 0,
                        mbp_ColorDepth = 0, mbp_IndexedColorCount = 0,
                        mbp_ImageData = bytes_of_string url\<rparr>"
    and frame: "frame = \<lparr>pf_Encoding = EncodingISO, pf_MimeType = ''-->'',
                          pf_PictureType = PTFrontCover, pf_Description = ''Front cover'',
                          pf_Picture = bytes_of_string url\<rparr>"
    and apic: "apic = CommonID ''Attached picture''"
  shows "snd (FlacTagger_SetCoverUrl f url) = None
    \<and> Meta (file_ptr (fst (FlacTagger_SetCoverUrl f url)))
        = Meta (file_ptr f) @ [Picture_Marshal pic]
    \<and> cmts (fst (FlacTagger_SetCoverUrl f url)) = cmts f
    \<and> (length url < 2 ^ 32 \<longrightarrow> read_Picture (Picture_Marshal pic) = Some pic)
    \<and> string_of_bytes (bytes_of_string url) = url
    \<and> snd (Mp3Tagger_SetCoverUrl m url) = None
    \<and> sequence_of (tag (fst (Mp3Tagger_SetCoverUrl m url))) apic
        = sequence_AddFrame (sequence_of (tag m) apic) (FPicture frame)
    \<and> FPicture frame \<in> set (sequence_of (tag (fst (Mp3Tagger_SetCoverUrl m url))) apic)
    \<and> (\<not> list_ex (\<lambda>g. UniqueIdentifier g = UniqueIdentifier (FPicture frame))
             (sequence_of (tag m) apic)
        \<longrightarrow> sequence_of (tag (fst (Mp3Tagger_SetCoverUrl m url))) apic
            = sequence_of (tag m) apic @ [FPicture frame])
    \<and> frames (tag (fst (Mp3Tagger_SetCoverUrl m url))) = frames (tag m)"
proof -
  have flac: "FlacTagger_SetCoverUrl f url = (append_Meta f (Picture_Marshal pic), None)"
    by (simp add: FlacTagger_SetCoverUrl_def pic)
  have mp3: "Mp3Tagger_SetCoverUrl m url = (m\<lparr>tag := AddAttachedPicture (tag m) frame\<rparr>, None)"
    by (simp add: Mp3Tagger_SetCoverUrl_def frame)
  have seq: "sequence_of (tag (fst (Mp3Tagger_SetCoverUrl m url))) apic
        = sequence_AddFrame (sequence_of (tag m) apic) (FPicture frame)"
    by (simp add: mp3 apic sequence_of_AddAttachedPicture)
  have len: "length (bytes_of_string url) = length url"
    by (rule length_bytes_of_string)
  have rt: "read_Picture (Picture_Marshal pic) = Some pic" if "length url < 2 ^ 32"
    by (rule read_Picture_Marshal) (use that in \<open>simp_all add: pic len\<close>)
  have app: "sequence_of (tag (fst (Mp3Tagger_SetCoverUrl m url))) apic
            = sequence_of (tag m) apic @ [FPicture frame]"
    if "\<not> list_ex (\<lambda>g. UniqueIdentifier g = UniqueIdentifier (FPicture frame))
          (sequence_of (tag m) apic)"
    unfolding seq
    using that by (rule sequence_AddFrame_absent)
  have fr: "frames (tag (fst (Mp3Tagger_SetCoverUrl m url))) = frames (tag m)"
    by (simp add: mp3 AddAttachedPicture_def AddSequenceFrame_def)
  have mem: "FPicture frame \<in> set (sequence_of (tag (fst (Mp3Tagger_SetCoverUrl m url))) apic)"
    unfolding seq by (rule in_sequence_AddFrame)
  have fl: "snd (FlacTagger_SetCoverUrl f url) = None"
    "Meta (file_ptr (fst (FlacTagger_SetCoverUrl f url))) = Meta (file_ptr f) @ [Picture_Marshal pic]"
    "cmts (fst (FlacTagger_SetCoverUrl f url)) = cmts f"
    by (simp_all add: flac append_Meta_fields)
  have ok: "snd (Mp3Tagger_SetCoverUrl m url) = None"
    by (simp add: mp3)
  from fl rt string_of_bytes_of_string [of url] ok seq mem app fr show ?thesis
    by blast
qed

text \<open>The URL \<^verbatim>\<open>https://x/y.jpg\<close> on a FLAC session and on an empty MP3 tag.\<close>

theorem SetCoverUrl_stores_sentinel_entry_witness:
  "length ''https://x/y.jpg'' < (2 :: nat) ^ 32
   \<and> snd (FlacTagger_SetCoverUrl flac_original ''https://x/y.jpg'') = None
   \<and> read_Picture (last (Meta (file_ptr (fst
         (FlacTagger_SetCoverUrl flac_original ''https://x/y.jpg'')))))
       = Some \<lparr>mbp_PictureType = PictureTypeFrontCover, mbp_MIME = ''-->'',
                mbp_Description = ''Front cover'', mbp_Width = 0, mbp_Height = 0,
                mbp_ColorDepth = 0, mbp_IndexedColorCount = 0,
                mbp_ImageData = bytes_of_string ''https://x/y.jpg''\<rparr>
   \<and> string_of_bytes (bytes_of_string ''https://x/y.jpg'') = ''https://x/y.jpg''
   \<and> sequence_of (tag \<lparr>tag = tag_empty\<rparr>) (CommonID ''Attached picture'') = []
   \<and> sequence_of (tag (fst (Mp3Tagger_SetCoverUrl \<lparr>tag = tag_empty\<rparr> ''https://x/y.jpg'')))
         (CommonID ''Attached picture'')
       = [FPicture \<lparr>pf_Encoding = EncodingISO, pf_MimeType = ''-->'',
                    pf_PictureType = PTFrontCover, pf_Description = ''Front cover'',
                    pf_Picture = bytes_of_string ''https://x/y.jpg''\<rparr>]"
proof -
  have l: "length ''https://x/y.jpg'' < (2 :: nat) ^ 32" by simp
  have s: "sequence_of (tag \<lparr>tag = tag_empty\<rparr>) (CommonID ''Attached picture'') = []"
    by (simp add: sequence_of_tag_empty)
  note inst = SetCoverUrl_stores_sentinel_entry [OF refl refl refl,
      where url = "''https://x/y.jpg''" and f = flac_original and m = "\<lparr>tag = tag_empty\<rparr>"]
  from inst l s show ?thesis
    by simp
qed

text \<open>On an MP3 tag that already has a front cover, \<^verbatim>\<open>SetCoverUrl\<close> does not append: the
  tag has one picture frame before the call and one after it, the new one.\<close>

theorem mp3_SetCoverUrl_replaces_cover:
  "sequence_of tag_with_cover (CommonID ''Attached picture'')
     = [FPicture \<lparr>pf_Encoding = EncodingISO, pf_MimeType = ''image/jpeg'',
                  pf_PictureType = PTFrontCover, pf_Description = ''Front cover'',
                  pf_Picture = [0xFF, 0xD8, 0xFF]\<rparr>]
   \<and> sequence_of (tag (fst (Mp3Tagger_SetCoverUrl \<lparr>tag = tag_with_cover\<rparr> ''https://x/y.jpg'')))
         (CommonID ''Attached picture'')
     = [FPicture \<lparr>pf_Encoding = EncodingISO, pf_MimeType = ''-->'',
                  pf_PictureType = PTFrontCover, pf_Description = ''Front cover'',
                  pf_Picture = bytes_of_string ''https://x/y.jpg''\<rparr>]
   \<and> sequence_of (tag (fst (Mp3Tagger_SetCoverUrl \<lparr>tag = tag_with_cover\<rparr> ''https://x/y.jpg'')))
         (CommonID ''Attached picture'')
     \<noteq> sequence_of tag_with_cover (CommonID ''Attached picture'')
         @ [FPicture \<lparr>pf_Encoding = EncodingISO, pf_MimeType = ''-->'',
                      pf_PictureType = PTFrontCover, pf_Description = ''Front cover'',
                      pf_Picture = bytes_of_string ''https://x/y.jpg''\<rparr>]"
  by (simp add: Mp3Tagger_SetCoverUrl_def sequence_of_AddAttachedPicture
      sequence_of_tag_with_cover UniqueIdentifier_front_cover del: UniqueIdentifier.simps)

text \<open>
  C9, as amended. The cover setters make no presence check. On the FLAC tagger every
  successful \<^verbatim>\<open>SetCover\<close> appends one front-cover picture block, whatever the chain
  holds, so two successive successful calls add two; a failed call changes nothing. On
  the MP3 tagger \<^verbatim>\<open>SetCover\<close> stores its frame with \<^verbatim>\<open>sequence.AddFrame\<close>: the number of
  picture frames grows by one only when no picture frame has the unique identifier of the
  new frame (picture type front cover, description \<^verbatim>\<open>Front cover\<close>), and a second
  \<^verbatim>\<open>SetCover\<close> replaces the frame of the first, so that the session is the one the second
  call alone would give.
\<close>

theorem cover_setters_store:
  assumes frame: "frame = \<lparr>pf_Encoding = EncodingISO, pf_MimeType = mime,
                          pf_PictureType = PTFrontCover, pf_Description = ''Front cover'',
                          pf_Picture = buf\<rparr>"
    and apic: "apic = CommonID ''Attached picture''"
  shows "(FlacTagger_SetCover e f buf mime = (f1, None) \<longrightarrow>
            (\<exists>w h depth colors.
               Meta (file_ptr f1) = Meta (file_ptr f) @
                 [Picture_Marshal
                    \<lparr>mbp_PictureType = PictureTypeFrontCover, mbp_MIME = mime,
                     mbp_Description = ''Front cover'', mbp_Width = w, mbp_Height = h,
                     mbp_ColorDepth = depth, mbp_IndexedColorCount = colors,
                     mbp_ImageData = buf\<rparr>])
            \<and> cmts f1 = cmts f)
    \<and> (FlacTagger_SetCover e f buf mime = (f1, None)
         \<and> FlacTagger_SetCover e f1 buf2 mime2 = (f2, None) \<longrightarrow>
            length (filter (\<lambda>b. Type b = Picture) (Meta (file_ptr f2)))
              = length (filter (\<lambda>b. Type b = Picture) (Meta (file_ptr f))) + 2)
    \<and> (FlacTagger_SetCover e f buf mime = (f1, Some err) \<longrightarrow> f1 = f)
    \<and> sequence_of (tag (fst (Mp3Tagger_SetCover m buf mime))) apic
        = sequence_AddFrame (sequence_of (tag m) apic) (FPicture frame)
    \<and> length (sequence_of (tag (fst (Mp3Tagger_SetCover m buf mime))) apic)
        = (if list_ex (\<lambda>g. UniqueIdentifier g = UniqueIdentifier (FPicture frame))
                (sequence_of (tag m) apic)
           then length (sequence_of (tag m) apic)
           else Suc (length (sequence_of (tag m) apic)))
    \<and> Mp3Tagger_SetCover (fst (Mp3Tagger_SetCover m buf mime)) buf2 mime2
        = Mp3Tagger_SetCover m buf2 mime2"
proof -
  have c1: "(\<exists>w h depth colors.
               Meta (file_ptr f1) = Meta (file_ptr f) @
                 [Picture_Marshal
                    \<lparr>mbp_PictureType = PictureTypeFrontCover, mbp_MIME = mime,
                     mbp_Description = ''Front cover'', mbp_Width = w, mbp_Height = h,
                     mbp_ColorDepth = depth, mbp_IndexedColorCount = colors,
                     mbp_ImageData = buf\<rparr>])
            \<and> cmts f1 = cmts f"
    if "FlacTagger_SetCover e f buf mime = (f1, None)"
  proof -
    from flac_SetCover_ok [OF that] obtain w h depth colors where
      eq: "f1 = append_Meta f (Picture_Marshal
             \<lparr>mbp_PictureType = PictureTypeFrontCover, mbp_MIME = mime,
              mbp_Description = ''Front cover'', mbp_Width = w, mbp_Height = h,
              mbp_ColorDepth = depth, mbp_IndexedColorCount = colors,
              mbp_ImageData = buf\<rparr>)"
      by blast
    have "Meta (file_ptr f1) = Meta (file_ptr f) @
                 [Picture_Marshal
                    \<lparr>mbp_PictureType = PictureTypeFrontCover, mbp_MIME = mime,
                     mbp_Description = ''Front cover'', mbp_Width = w, mbp_Height = h,
                     mbp_ColorDepth = depth, mbp_IndexedColorCount = colors,
                     mbp_ImageData = buf\<rparr>]"
      unfolding eq by (rule append_Meta_fields)
    moreover have "cmts f1 = cmts f"
      unfolding eq by (rule append_Meta_fields)
    ultimately show ?thesis by blast
  qed
  have c2: "length (filter (\<lambda>b. Type b = Picture) (Meta (file_ptr f2)))
              = length (filter (\<lambda>b. Type b = Picture) (Meta (file_ptr f))) + 2"
    if "FlacTagger_SetCover e f buf mime = (f1, None)"
      and "FlacTagger_SetCover e f1 buf2 mime2 = (f2, None)"
    using flac_SetCover_ok [OF that(1)] flac_SetCover_ok [OF that(2)]
    by (auto simp: append_Meta_fields Type_Picture_Marshal)
  have c3: "f1 = f" if "FlacTagger_SetCover e f buf mime = (f1, Some err)"
    using that by (rule flac_SetCover_failed)
  have mp3: "Mp3Tagger_SetCover m buf mime = (m\<lparr>tag := AddAttachedPicture (tag m) frame\<rparr>, None)"
    by (simp add: Mp3Tagger_SetCover_def frame)
  have c4: "sequence_of (tag (fst (Mp3Tagger_SetCover m buf mime))) apic
        = sequence_AddFrame (sequence_of (tag m) apic) (FPicture frame)"
    by (simp add: mp3 apic sequence_of_AddAttachedPicture)
  have c5: "length (sequence_of (tag (fst (Mp3Tagger_SetCover m buf mime))) apic)
        = (if list_ex (\<lambda>g. UniqueIdentifier g = UniqueIdentifier (FPicture frame))
                (sequence_of (tag m) apic)
           then length (sequence_of (tag m) apic)
           else Suc (length (sequence_of (tag m) apic)))"
    unfolding c4 length_sequence_AddFrame ..
  note c6 = Mp3Tagger_SetCover_twice [of m buf mime buf2 mime2]
  from c1 c2 c3 c4 c5 c6 show ?thesis by blast
qed

theorem cover_setters_store_witness:
  "snd (FlacTagger_SetCover env_ok flac_original [0xFF, 0xD8] ''image/jpeg'') = None
   \<and> snd (FlacTagger_SetCover env_ok
         (fst (FlacTagger_SetCover env_ok flac_original [0xFF, 0xD8] ''image/jpeg''))
         [0x89, 0x50] ''image/png'') = None
   \<and> length (filter (\<lambda>b. Type b = Picture) (Meta (file_ptr flac_original))) = 0
   \<and> length (filter (\<lambda>b. Type b = Picture) (Meta (file_ptr (fst (FlacTagger_SetCover env_ok
         (fst (FlacTagger_SetCover env_ok flac_original [0xFF, 0xD8] ''image/jpeg''))
         [0x89, 0x50] ''image/png''))))) = 2
   \<and> FlacTagger_SetCover env_ok flac_original [] ''image/jpeg''
       = (flac_original, Some (ExternalError ''image: unknown format''))
   \<and> length (sequence_of (tag (fst (Mp3Tagger_SetCover \<lparr>tag = tag_empty\<rparr>
         [0xFF, 0xD8] ''image/jpeg''))) (CommonID ''Attached picture'')) = 1
   \<and> length (sequence_of (tag (fst (Mp3Tagger_SetCover \<lparr>tag = tag_with_cover\<rparr>
         [0x89, 0x50] ''image/png''))) (CommonID ''Attached picture'')) = 1"
proof -
  define f1 where "f1 = fst (FlacTagger_SetCover env_ok flac_original [0xFF, 0xD8] ''image/jpeg'')"
  define f2 where "f2 = fst (FlacTagger_SetCover env_ok f1 [0x89, 0x50] ''image/png'')"
  have s1: "FlacTagger_SetCover env_ok flac_original [0xFF, 0xD8] ''image/jpeg'' = (f1, None)"
    unfolding f1_def by (simp add: flac_SetCover_cases env_ok_def)
  have s2: "FlacTagger_SetCover env_ok f1 [0x89, 0x50] ''image/png'' = (f2, None)"
    unfolding f2_def by (simp add: flac_SetCover_cases env_ok_def)
  have s3: "FlacTagger_SetCover env_ok flac_original [] ''image/jpeg''
       = (flac_original, Some (ExternalError ''image: unknown format''))"
    by (simp add: flac_SetCover_cases env_ok_def)
  have z: "length (filter (\<lambda>b. Type b = Picture) (Meta (file_ptr flac_original))) = 0"
    by (simp add: flac_original_def file_original_def VorbisComment_Marshal_def
        VorbisComment_def Picture_def)
  have e1: "sequence_of (tag \<lparr>tag = tag_empty\<rparr>) (CommonID ''Attached picture'') = []"
    by (simp add: sequence_of_tag_empty)
  have e2: "sequence_of (tag \<lparr>tag = tag_with_cover\<rparr>) (CommonID ''Attached picture'')
      = [FPicture \<lparr>pf_Encoding = EncodingISO, pf_MimeType = ''image/jpeg'',
                pf_PictureType = PTFrontCover, pf_Description = ''Front cover'',
                pf_Picture = [0xFF, 0xD8, 0xFF]\<rparr>]"
    by (simp add: sequence_of_tag_with_cover)
  note flac = cover_setters_store [OF refl refl, where e = env_ok and f = flac_original
      and buf = "[0xFF, 0xD8]" and mime = "''image/jpeg''" and ?f1.0 = f1
      and ?buf2.0 = "[0x89, 0x50]" and ?mime2.0 = "''image/png''" and ?f2.0 = f2
      and m = "\<lparr>tag = tag_empty\<rparr>"]
  note mp3 = cover_setters_store [OF refl refl, where m = "\<lparr>tag = tag_with_cover\<rparr>"
      and buf = "[0x89, 0x50]" and mime = "''image/png''"]
  from flac s1 s2 z have n2: "length (filter (\<lambda>b. Type b = Picture) (Meta (file_ptr f2))) = 2"
    by simp
  from flac have m1: "length (sequence_of (tag (fst (Mp3Tagger_SetCover \<lparr>tag = tag_empty\<rparr>
         [0xFF, 0xD8] ''image/jpeg''))) (CommonID ''Attached picture'')) = 1"
    unfolding e1 by simp
  from mp3 have m2: "length (sequence_of (tag (fst (Mp3Tagger_SetCover \<lparr>tag = tag_with_cover\<rparr>
         [0x89, 0x50] ''image/png''))) (CommonID ''Attached picture'')) = 1"
    unfolding e2 by (simp add: fmt_02X_PTFrontCover)
  have r1: "snd (FlacTagger_SetCover env_ok flac_original [0xFF, 0xD8] ''image/jpeg'') = None"
    by (simp add: s1)
  have r2: "snd (FlacTagger_SetCover env_ok f1 [0x89, 0x50] ''image/png'') = None"
    by (simp add: s2)
  from r1 r2 [unfolded f1_def] s3 z n2 [unfolded f2_def f1_def] m1 m2 show ?thesis
    by blast
qed

text \<open>Two successive \<^verbatim>\<open>SetCover\<close> calls on an empty MP3 tag leave one picture frame,
  the second one, not two.\<close>

theorem mp3_SetCover_twice_keeps_one:
  "sequence_of (tag (Mp3Tagger_calls \<lparr>tag = tag_empty\<rparr>
       [CallSetCover [0xFF, 0xD8] ''image/jpeg'', CallSetCover [0x89, 0x50] ''image/png'']))
     (CommonID ''Attached picture'')
     = [FPicture \<lparr>pf_Encoding = EncodingISO, pf_MimeType = ''image/png'',
                  pf_PictureType = PTFrontCover, pf_Description = ''Front cover'',
                  pf_Picture = [0x89, 0x50]\<rparr>]
   \<and> length (sequence_of (tag (Mp3Tagger_calls \<lparr>tag = tag_empty\<rparr>
       [CallSetCover [0xFF, 0xD8] ''image/jpeg'', CallSetCover [0x89, 0x50] ''image/png'']))
     (CommonID ''Attached picture'')) \<noteq> 2"
  by (simp add: Mp3Tagger_SetCover_def sequence_of_AddAttachedPicture
      sequence_of_tag_empty UniqueIdentifier_front_cover del: UniqueIdentifier.simps)

subsection \<open>Saving\<close>

text \<open>
  C2. \<^verbatim>\<open>Save\<close> of the MP3 tagger is to return the failure of the serialize step when
  that step fails, and to attempt the release step all the same. In an environment where
  \<^verbatim>\<open>tag.Save()\<close> fails and \<^verbatim>\<open>tag.Close()\<close> succeeds, both steps are attempted, in this
  order, and \<^verbatim>\<open>Save\<close> returns \<^verbatim>\<open>nil\<close>: it returns what \<^verbatim>\<open>tag.Close()\<close> returned.
\<close>

theorem mp3_Save_returns_Close_result:
  "tag_Save env_save_fails tag_original
     = Some (ExternalError ''open song.mp3-id3v2: permission denied'')
   \<and> Mp3Tagger_Save env_save_fails \<lparr>tag = tag_original\<rparr>
     = ([IO_TagSave tag_original, IO_TagClose tag_original], None)"
  by (simp add: Mp3Tagger_Save_eq env_save_fails_def env_ok_def)

lemma flac_call_Meta:
  "\<exists>added. Meta (file_ptr (fst (FlacTagger_call e f c))) = Meta (file_ptr f) @ added
      \<and> list_all (\<lambda>b. Type b = Picture) added"
proof (cases c)
  case (CallSetCover buf mime)
  then show ?thesis
    by (auto simp: flac_SetCover_cases append_Meta_fields Type_Picture_Marshal
        split: sum.splits prod.splits)
next
  case (CallSetCoverUrl u)
  then show ?thesis
    by (simp add: FlacTagger_SetCoverUrl_def append_Meta_fields Type_Picture_Marshal)
next
  case (CallSetTitle s)
  then show ?thesis
    by (auto simp: FlacTagger_SetTitle_def split: sum.splits prod.splits)
next
  case (CallSetAlbum s)
  then show ?thesis
    by (auto simp: FlacTagger_SetAlbum_def split: sum.splits prod.splits)
next
  case (CallSetArtist ss)
  then show ?thesis
    by (auto simp: FlacTagger_SetArtist_def split: sum.splits)
next
  case (CallSetComment s)
  then show ?thesis
    by (simp add: FlacTagger_SetComment_def)
qed

lemma flac_call_path: "path (fst (FlacTagger_call e f c)) = path f"
  by (cases c)
    (auto simp: flac_SetCover_cases append_Meta_fields FlacTagger_SetCoverUrl_def
      FlacTagger_SetTitle_def FlacTagger_SetAlbum_def FlacTagger_SetArtist_def
      FlacTagger_SetComment_def split: sum.splits prod.splits)

lemma flac_calls_path: "path (FlacTagger_calls e f cs) = path f"
  by (induction cs arbitrary: f) (simp_all add: flac_call_path)

lemma flac_calls_Meta:
  "\<exists>added. Meta (file_ptr (FlacTagger_calls e f cs)) = Meta (file_ptr f) @ added
      \<and> list_all (\<lambda>b. Type b = Picture) added"
proof (induction cs arbitrary: f)
  case Nil
  show ?case by simp
next
  case (Cons c cs)
  obtain a1 where a1: "Meta (file_ptr (fst (FlacTagger_call e f c))) = Meta (file_ptr f) @ a1"
    "list_all (\<lambda>b. Type b = Picture) a1"
    using flac_call_Meta by blast
  obtain a2 where a2: "Meta (file_ptr (FlacTagger_calls e (fst (FlacTagger_call e f c)) cs))
      = Meta (file_ptr (fst (FlacTagger_call e f c))) @ a2"
    "list_all (\<lambda>b. Type b = Picture) a2"
    using Cons.IH by blast
  have "Meta (file_ptr (FlacTagger_calls e f (c # cs))) = Meta (file_ptr f) @ (a1 @ a2)"
    by (simp add: a1 a2)
  moreover have "list_all (\<lambda>b. Type b = Picture) (a1 @ a2)"
    by (simp add: a1 a2)
  ultimately show ?case by blast
qed

lemma NewFlacTagger_ok:
  assumes "NewFlacTagger e p = (log, Inr f0)"
  shows "flac_ParseFile e p = Inr (file_ptr f0) \<and> path f0 = p \<and> log = [IO_ParseFile p]"
  using assms
  by (auto simp: NewFlacTagger_def split: sum.splits option.splits)

lemma filter_Picture_VorbisComment:
  "list_all (\<lambda>b. Type b = Picture) added \<Longrightarrow> filter (\<lambda>b. Type b = VorbisComment) added = []"
  by (induction added) (simp_all add: Picture_not_VorbisComment)

text \<open>
  C6. \<^verbatim>\<open>Save\<close> of a FLAC session marshals the comment map into a new comment block and
  appends it to the chain, removing nothing: after any calls of the setters on a session
  that the constructor opened, the chain that is written is the chain that was parsed,
  then the picture blocks the setters appended, then the new comment block. It has one
  comment block more than the parsed file, hence two when the file had one.
\<close>

theorem flac_Save_appends_comment_block:
  assumes new: "NewFlacTagger e p = (log, Inr f0)"
    and session: "f = FlacTagger_calls e f0 cs"
    and save: "FlacTagger_Save e f = (f', log', err)"
  shows "\<exists>parsed added.
           flac_ParseFile e p = Inr parsed
         \<and> Meta (file_ptr f) = Meta parsed @ added
         \<and> list_all (\<lambda>b. Type b = Picture) added
         \<and> Meta (file_ptr f') = Meta parsed @ added @ [VorbisComment_Marshal (cmts f)]
         \<and> Type (VorbisComment_Marshal (cmts f)) = VorbisComment
         \<and> length (filter (\<lambda>b. Type b = VorbisComment) (Meta (file_ptr f')))
             = Suc (length (filter (\<lambda>b. Type b = VorbisComment) (Meta parsed)))
         \<and> log' = [IO_FileSave (file_ptr f') p]
         \<and> err = file_Save e (file_ptr f') p"
proof -
  from NewFlacTagger_ok [OF new]
  have parsed: "flac_ParseFile e p = Inr (file_ptr f0)" and p: "path f0 = p" by simp_all
  obtain added where added: "Meta (file_ptr f) = Meta (file_ptr f0) @ added"
    "list_all (\<lambda>b. Type b = Picture) added"
    unfolding session using flac_calls_Meta by blast
  have pf: "path f = p" unfolding session by (simp add: flac_calls_path p)
  from save have f': "f' = append_Meta f (VorbisComment_Marshal (cmts f))"
    and log': "log' = [IO_FileSave (file_ptr f') (path f')]"
    and err: "err = file_Save e (file_ptr f') (path f')"
    by (auto simp: FlacTagger_Save_def File_Save_def Let_def)
  have pf': "path f' = p" by (simp add: f' append_Meta_fields pf)
  have meta: "Meta (file_ptr f') = Meta (file_ptr f0) @ added @ [VorbisComment_Marshal (cmts f)]"
    by (simp add: f' append_Meta_fields added)
  have count: "length (filter (\<lambda>b. Type b = VorbisComment) (Meta (file_ptr f')))
             = Suc (length (filter (\<lambda>b. Type b = VorbisComment) (Meta (file_ptr f0))))"
    by (simp add: meta filter_Picture_VorbisComment [OF added(2)] Type_VorbisComment_Marshal)
  from parsed added meta count log' err pf' Type_VorbisComment_Marshal [of "cmts f"]
  show ?thesis by auto
qed

lemma NewFlacTagger_example:
  "NewFlacTagger env_ok ''song.flac'' = ([IO_ParseFile ''song.flac''], Inr flac_original)"
  by (simp add: NewFlacTagger_def env_ok_def file_original_def flac_original_def
      VorbisComment_Marshal_def VorbisComment_def)

lemma count_file_original:
  "length (filter (\<lambda>b. Type b = VorbisComment) (Meta file_original)) = 1"
  by (simp add: file_original_def VorbisComment_Marshal_def VorbisComment_def)

theorem flac_Save_appends_comment_block_witness:
  "NewFlacTagger env_ok ''song.flac'' = ([IO_ParseFile ''song.flac''], Inr flac_original)
   \<and> flac_ParseFile env_ok ''song.flac'' = Inr file_original
   \<and> length (filter (\<lambda>b. Type b = VorbisComment) (Meta file_original)) = 1
   \<and> length (filter (\<lambda>b. Type b = VorbisComment)
        (Meta (file_ptr (fst (FlacTagger_Save env_ok (FlacTagger_calls env_ok flac_original
           [CallSetTitle ''New'', CallSetCoverUrl ''https://x/y.jpg'',
            CallSetComment ''hello''])))))) = 2
   \<and> fst (snd (FlacTagger_Save env_ok (FlacTagger_calls env_ok flac_original
           [CallSetTitle ''New'', CallSetCoverUrl ''https://x/y.jpg'',
            CallSetComment ''hello''])))
       = [IO_FileSave (file_ptr (fst (FlacTagger_Save env_ok (FlacTagger_calls env_ok
            flac_original [CallSetTitle ''New'', CallSetCoverUrl ''https://x/y.jpg'',
            CallSetComment ''hello''])))) ''song.flac'']"
proof -
  define cs where
    "cs = [CallSetTitle ''New'', CallSetCoverUrl ''https://x/y.jpg'', CallSetComment ''hello'']"
  define r where "r = FlacTagger_Save env_ok (FlacTagger_calls env_ok flac_original cs)"
  have save: "FlacTagger_Save env_ok (FlacTagger_calls env_ok flac_original cs)
      = (fst r, fst (snd r), snd (snd r))"
    by (simp add: r_def)
  have parse: "flac_ParseFile env_ok ''song.flac'' = Inr file_original"
    by (simp add: env_ok_def)
  from flac_Save_appends_comment_block [OF NewFlacTagger_example refl save]
  obtain parsed where
    p: "flac_ParseFile env_ok ''song.flac'' = Inr parsed"
    and n: "length (filter (\<lambda>b. Type b = VorbisComment) (Meta (file_ptr (fst r))))
             = Suc (length (filter (\<lambda>b. Type b = VorbisComment) (Meta parsed)))"
    and l: "fst (snd r) = [IO_FileSave (file_ptr (fst r)) ''song.flac'']"
    by blast
  from p parse have "parsed = file_original" by simp
  with n have "length (filter (\<lambda>b. Type b = VorbisComment) (Meta (file_ptr (fst r)))) = 2"
    by (simp add: count_file_original)
  with l parse show ?thesis
    unfolding r_def cs_def
    using NewFlacTagger_example count_file_original by blast
qed

text \<open>
  C7. \<^verbatim>\<open>SetComment\<close> of the FLAC tagger returns \<^verbatim>\<open>nil\<close> and leaves the session (comment
  map and block chain) as it is, for every argument; \<^verbatim>\<open>Save\<close> after the call writes what
  it would have written without it.
\<close>

theorem flac_SetComment_noop:
  "FlacTagger_SetComment f comment = (f, None)
   \<and> FlacTagger_Save e (fst (FlacTagger_SetComment f comment)) = FlacTagger_Save e f"
  by (simp add: FlacTagger_SetComment_def)

subsection \<open>The setters of the MP3 tagger never fail\<close>

text \<open>
  C10. Every setter of the MP3 tagger returns \<^verbatim>\<open>nil\<close>, whatever the session and the
  argument: \<^verbatim>\<open>SetCover\<close>, \<^verbatim>\<open>SetCoverUrl\<close>, \<^verbatim>\<open>SetTitle\<close>, \<^verbatim>\<open>SetAlbum\<close>, \<^verbatim>\<open>SetArtist\<close> and
  \<^verbatim>\<open>SetComment\<close> never return an error.
\<close>

theorem mp3_setters_return_nil:
  "snd (Mp3Tagger_SetCover m buf mime) = None
   \<and> snd (Mp3Tagger_SetCoverUrl m coverUrl) = None
   \<and> snd (Mp3Tagger_SetTitle m title) = None
   \<and> snd (Mp3Tagger_SetAlbum m album) = None
   \<and> snd (Mp3Tagger_SetArtist m artists) = None
   \<and> snd (Mp3Tagger_SetComment m comment) = None"
  by (simp add: Mp3Tagger_SetCover_def Mp3Tagger_SetCoverUrl_def Mp3Tagger_SetTitle_def
      Mp3Tagger_SetAlbum_def Mp3Tagger_SetArtist_def Mp3Tagger_SetComment_def)

end
